theory Spec2Isabelle
  imports Complex_Main "HOL-Library.AList"
begin

section \<open>Values, errors and data frames\<close>

text \<open>
  Python floats are modelled as \<^typ>\<open>real\<close>: the arithmetic of the estimators is read as
  exact, and NaN and the infinities are outside the model. A pandas column is a list of
  cells; a data frame is its row count and its columns in order, by name.
\<close>

datatype invalid_arguments =
    NoRows
  | MissingColumns "string list" "string list"
  | NotAString

datatype error =
    InvalidArgumentsException invalid_arguments
  | TypeError
  | ValueError
  | KeyError string

datatype pyval = PNone | PBool bool | PInt int | PFloat real | PStr string

type_synonym column = "pyval list"

record dataframe =
  nrows :: nat
  cols :: "(string \<times> column) list"

text \<open>\<^verbatim>\<open>DataFrame.empty\<close>: one of the two axes has length 0.\<close>

definition df_empty :: "dataframe \<Rightarrow> bool" where
  "df_empty df = (nrows df = 0 \<or> cols df = [])"

definition df_columns :: "dataframe \<Rightarrow> string list" where
  "df_columns df = map fst (cols df)"

text \<open>\<^verbatim>\<open>df[name]\<close>: the column, or KeyError.\<close>

definition get_column :: "dataframe \<Rightarrow> string \<Rightarrow> error + column" where
  "get_column df name = (case map_of (cols df) name of None \<Rightarrow> Inl (KeyError name) | Some c \<Rightarrow> Inr c)"

text \<open>\<^verbatim>\<open>df[name] = c\<close>: overwrites the column where it stands, or appends it.\<close>

definition set_column :: "dataframe \<Rightarrow> string \<Rightarrow> column \<Rightarrow> dataframe" where
  "set_column df name c = df\<lparr>cols := AList.update name c (cols df)\<rparr>"

fun get_columns :: "dataframe \<Rightarrow> string list \<Rightarrow> error + column list" where
  "get_columns df [] = Inr []"
| "get_columns df (n # ns) =
     (case get_column df n of
        Inl e \<Rightarrow> Inl e
      | Inr c \<Rightarrow> (case get_columns df ns of Inl e \<Rightarrow> Inl e | Inr cs \<Rightarrow> Inr (c # cs)))"

fun set_columns :: "dataframe \<Rightarrow> string list \<Rightarrow> column list \<Rightarrow> dataframe" where
  "set_columns df (n # ns) (c # cs) = set_columns (set_column df n c) ns cs"
| "set_columns df _ _ = df"

text \<open>
  Modelled from the spec: \<^verbatim>\<open>_list_missing\<close> of \<^verbatim>\<open>nannyml.base\<close> is not among the
  sources. The spec has it fail with an invalid-input error that enumerates the missing
  column names; the error here carries the missing names and the columns of the data set.
\<close>

definition list_missing :: "string list \<Rightarrow> string list \<Rightarrow> error + unit" where
  "list_missing columns_to_find dataset_columns =
     (let missing = filter (\<lambda>col. col \<notin> set dataset_columns) columns_to_find
      in if length missing > 0
         then Inl (InvalidArgumentsException (MissingColumns missing dataset_columns))
         else Inr ())"

section \<open>Chunks and metrics\<close>

record chunk =
  key :: string
  chunk_index :: int
  start_index :: int
  end_index :: int
  start_datetime :: pyval
  end_datetime :: pyval
  data :: dataframe

text \<open>
  A metric is an object of a class that is not among the sources: its fields are its
  attributes, and its methods \<^verbatim>\<open>estimate\<close>, \<^verbatim>\<open>sampling_error\<close> and
  \<^verbatim>\<open>realized_performance\<close> are function-valued fields. The metrics of the regression
  strategy carry two value limits more.
\<close>

record metric =
  column_name :: string
  upper_threshold :: "real option"
  lower_threshold :: "real option"
  estimate :: "dataframe \<Rightarrow> real"
  sampling_error :: "dataframe \<Rightarrow> real"
  realized_performance :: "dataframe \<Rightarrow> pyval"

record dle_metric = metric +
  upper_value_limit :: "real option"
  lower_value_limit :: "real option"

text \<open>
  Modelled from the spec: the constant \<^verbatim>\<open>SAMPLING_ERROR_RANGE\<close> of
  \<^verbatim>\<open>nannyml.sampling_error\<close> is not among the sources; the spec gives the factor 3.
\<close>

definition SAMPLING_ERROR_RANGE :: real where
  "SAMPLING_ERROR_RANGE = 3"

definition of_optional :: "real option \<Rightarrow> pyval" where
  "of_optional x = (case x of None \<Rightarrow> PNone | Some r \<Rightarrow> PFloat r)"

text \<open>Truth value of an optional float: \<^verbatim>\<open>None\<close> and \<^verbatim>\<open>0.0\<close> are false.\<close>

definition truthy :: "real option \<Rightarrow> bool" where
  "truthy x = (case x of None \<Rightarrow> False | Some r \<Rightarrow> r \<noteq> 0)"

section \<open>Estimator state\<close>

type_synonym label = "string \<times> string"
type_synonym row = "(label \<times> pyval) list"
type_synonym table = "row list"

text \<open>
  The calls an estimator makes on its calibration collaborators are logged in the ghost
  field \<open>calls\<close>, with the score column handed to \<^verbatim>\<open>calibrate\<close>.
\<close>

datatype call = NeedsCalibration | CalibratorFit | Calibrate column

record 'm estimator =
  metrics :: "'m list"
  y_pred :: string
  y_true :: string
  chunker :: "dataframe \<Rightarrow> chunk list"
  result :: "table option"

record 'c cbpe = "metric estimator" +
  y_pred_proba :: string
  calibrator :: 'c
  needs_calibration :: bool
  confidence_upper_bound :: real
  confidence_lower_bound :: real
  calls :: "call list"

section \<open>Chunk-level estimation\<close>

text \<open>
  \<^verbatim>\<open>_BinaryClassificationCBPE._estimate_chunk\<close>: the loop over the metrics, with the
  dictionary \<^verbatim>\<open>estimates\<close> as an association list in insertion order. Comparing a float
  with \<^verbatim>\<open>None\<close> raises TypeError; \<^verbatim>\<open>or\<close> evaluates its right operand only when the
  left one is false.
\<close>

fun cbpe_estimate_chunk_loop ::
  "'c cbpe \<Rightarrow> chunk \<Rightarrow> metric list \<Rightarrow> (string \<times> pyval) list \<Rightarrow> error + (string \<times> pyval) list"
where
  "cbpe_estimate_chunk_loop self chunk [] estimates = Inr estimates"
| "cbpe_estimate_chunk_loop self chunk (metric # rest) estimates =
     (let estimated_metric = estimate metric (data chunk);
          sampling_err = sampling_error metric (data chunk);
          e1 = AList.update (''sampling_error_'' @ column_name metric) (PFloat sampling_err) estimates;
          e2 = AList.update (''realized_'' @ column_name metric)
                 (realized_performance metric (data chunk)) e1;
          e3 = AList.update (''estimated_'' @ column_name metric) (PFloat estimated_metric) e2;
          e4 = AList.update (''upper_confidence_'' @ column_name metric)
                 (PFloat (min (confidence_upper_bound self)
                    (estimated_metric + SAMPLING_ERROR_RANGE * sampling_err))) e3;
          e5 = AList.update (''lower_confidence_'' @ column_name metric)
                 (PFloat (max (confidence_lower_bound self)
                    (estimated_metric - SAMPLING_ERROR_RANGE * sampling_err))) e4;
          e6 = AList.update (''upper_threshold_'' @ column_name metric)
                 (of_optional (upper_threshold metric)) e5;
          e7 = AList.update (''lower_threshold_'' @ column_name metric)
                 (of_optional (lower_threshold metric)) e6
      in case upper_threshold metric of
           None \<Rightarrow> Inl TypeError
         | Some u \<Rightarrow>
             if estimated_metric > u
             then cbpe_estimate_chunk_loop self chunk rest
                    (AList.update (''alert_'' @ column_name metric) (PBool True) e7)
             else (case lower_threshold metric of
                     None \<Rightarrow> Inl TypeError
                   | Some l \<Rightarrow>
                       cbpe_estimate_chunk_loop self chunk rest
                         (AList.update (''alert_'' @ column_name metric)
                            (PBool (estimated_metric < l)) e7)))"

definition cbpe_estimate_chunk :: "'c cbpe \<Rightarrow> chunk \<Rightarrow> error + (string \<times> pyval) list" where
  "cbpe_estimate_chunk self chunk = cbpe_estimate_chunk_loop self chunk (metrics self) []"

text \<open>
  \<^verbatim>\<open>DLE._estimate_chunk\<close>: the confidence boundaries are clipped only to a limit that
  \<^verbatim>\<open>is not None\<close>; the alert tests the truth value of each threshold.
\<close>

fun dle_estimate_chunk_loop ::
  "chunk \<Rightarrow> dle_metric list \<Rightarrow> (string \<times> pyval) list \<Rightarrow> (string \<times> pyval) list"
where
  "dle_estimate_chunk_loop chunk [] estimates = estimates"
| "dle_estimate_chunk_loop chunk (metric # rest) estimates =
     (let estimated_metric = estimate metric (data chunk);
          sampling_err = sampling_error metric (data chunk);
          upper0 = estimated_metric + 3 * sampling_err;
          upper_confidence_boundary =
            (case upper_value_limit metric of None \<Rightarrow> upper0 | Some value_limit \<Rightarrow> min value_limit upper0);
          lower0 = estimated_metric - 3 * sampling_err;
          lower_confidence_boundary =
            (case lower_value_limit metric of None \<Rightarrow> lower0 | Some value_limit \<Rightarrow> max value_limit lower0);
          e1 = AList.update (''sampling_error_'' @ column_name metric) (PFloat sampling_err) estimates;
          e2 = AList.update (''realized_'' @ column_name metric)
                 (realized_performance metric (data chunk)) e1;
          e3 = AList.update (''estimated_'' @ column_name metric) (PFloat estimated_metric) e2;
          e4 = AList.update (''upper_confidence_'' @ column_name metric)
                 (PFloat upper_confidence_boundary) e3;
          e5 = AList.update (''lower_confidence_'' @ column_name metric)
                 (PFloat lower_confidence_boundary) e4;
          e6 = AList.update (''upper_threshold_'' @ column_name metric)
                 (of_optional (upper_threshold metric)) e5;
          e7 = AList.update (''lower_threshold_'' @ column_name metric)
                 (of_optional (lower_threshold metric)) e6;
          e8 = AList.update (''alert_'' @ column_name metric)
                 (PBool
                   ((if truthy (upper_threshold metric)
                     then estimated_metric > the (upper_threshold metric) else False)
                    \<or> (if truthy (lower_threshold metric)
                        then estimated_metric < the (lower_threshold metric) else False))) e7
      in dle_estimate_chunk_loop chunk rest e8)"

definition dle_estimate_chunk :: "dle_metric list \<Rightarrow> chunk \<Rightarrow> (string \<times> pyval) list" where
  "dle_estimate_chunk ms chunk = dle_estimate_chunk_loop chunk ms []"

section \<open>Column layout\<close>

text \<open>\<^verbatim>\<open>_create_multilevel_index\<close>, with the tuples of the index as a list.\<close>

definition chunk_column_names :: "string list" where
  "chunk_column_names =
     [''key'', ''chunk_index'', ''start_index'', ''end_index'', ''start_date'', ''end_date'',
      ''period'']"

definition method_column_names :: "string list" where
  "method_column_names =
     [''sampling_error'', ''realized'', ''value'', ''upper_confidence_boundary'',
      ''lower_confidence_boundary'', ''upper_threshold'', ''lower_threshold'', ''alert'']"

definition create_multilevel_index :: "string list \<Rightarrow> label list" where
  "create_multilevel_index metric_names =
     (let chunk_tuples = map (\<lambda>chunk_column_name. (''chunk'', chunk_column_name)) chunk_column_names;
          reconstruction_tuples =
            concat (map (\<lambda>metric_name. map (\<lambda>column_name. (metric_name, column_name))
                                          method_column_names) metric_names)
      in chunk_tuples @ reconstruction_tuples)"

section \<open>Result table\<close>

text \<open>
  A row of the result table is an association list from column labels to values, so that
  \<^verbatim>\<open>pd.concat\<close>, which aligns its frames by label, appends the rows. The record of a
  chunk is the dictionary literal of \<^verbatim>\<open>_estimate\<close>: seven chunk entries, then the
  entries of \<^verbatim>\<open>_estimate_chunk\<close> unpacked over them.
\<close>

definition chunk_record :: "chunk \<Rightarrow> (string \<times> pyval) list \<Rightarrow> (string \<times> pyval) list" where
  "chunk_record chunk estimates =
     fold (\<lambda>(k, v). AList.update k v) estimates
       [(''key'', PStr (key chunk)),
        (''chunk_index'', PInt (chunk_index chunk)),
        (''start_index'', PInt (start_index chunk)),
        (''end_index'', PInt (end_index chunk)),
        (''start_date'', start_datetime chunk),
        (''end_date'', end_datetime chunk),
        (''period'', PStr ''analysis'')]"

text \<open>
  \<^verbatim>\<open>DataFrame.from_records\<close> followed by \<^verbatim>\<open>res.columns = multilevel_index\<close>: the frame
  has the keys of the records as columns (none when there is no record), and assigning
  an index of another length raises ValueError. The labels are assigned by position.
\<close>

definition relabel :: "label list \<Rightarrow> (string \<times> pyval) list list \<Rightarrow> error + table" where
  "relabel multilevel_index records =
     (let width = (case records of [] \<Rightarrow> 0 | r # _ \<Rightarrow> length r)
      in if width \<noteq> length multilevel_index then Inl ValueError
         else Inr (map (\<lambda>r. zip multilevel_index (map snd r)) records))"

text \<open>\<^verbatim>\<open>result.data[('chunk', 'period')] = 'reference'\<close>: every row of the table.\<close>

definition set_period_reference :: "table \<Rightarrow> table" where
  "set_period_reference t = map (AList.update (''chunk'', ''period'') (PStr ''reference'')) t"

text \<open>The result is created by the first call and extended by every later one.\<close>

definition accumulate :: "table option \<Rightarrow> table \<Rightarrow> table" where
  "accumulate old res = (case old of None \<Rightarrow> res | Some t \<Rightarrow> t @ res)"

section \<open>Confidence-based classification estimator\<close>

text \<open>
  The collaborators of the estimator that are not among the sources are parameters:
  the check \<^verbatim>\<open>needs_calibration\<close>, the calibrator's \<^verbatim>\<open>fit\<close> and \<^verbatim>\<open>calibrate\<close>, and
  the \<^verbatim>\<open>fit\<close> of a metric.
\<close>

record 'c cbpe_env =
  needs_calibration_fn :: "column \<Rightarrow> column \<Rightarrow> 'c \<Rightarrow> bool"
  calibrator_fit :: "'c \<Rightarrow> column \<Rightarrow> column \<Rightarrow> 'c"
  calibrate :: "'c \<Rightarrow> column \<Rightarrow> column"
  metric_fit :: "metric \<Rightarrow> dataframe \<Rightarrow> metric"

datatype model_outputs = Single string | PerClass "(string \<times> string) list"

text \<open>
  \<^verbatim>\<open>_BinaryClassificationCBPE.__init__\<close>. What \<^verbatim>\<open>super().__init__\<close> builds (metrics,
  chunker, calibrator, the initial calibration flag) is taken as arguments.
\<close>

definition cbpe_init ::
  "metric list \<Rightarrow> string \<Rightarrow> model_outputs \<Rightarrow> string \<Rightarrow> (dataframe \<Rightarrow> chunk list) \<Rightarrow> 'c \<Rightarrow> bool
     \<Rightarrow> error + 'c cbpe"
where
  "cbpe_init ms yp ypp yt ch cal nc =
     (case ypp of
        PerClass _ \<Rightarrow> Inl (InvalidArgumentsException NotAString)
      | Single s \<Rightarrow>
          Inr \<lparr>metrics = ms, y_pred = yp, y_true = yt, chunker = ch, result = None,
               y_pred_proba = s, calibrator = cal, needs_calibration = nc,
               confidence_upper_bound = 1, confidence_lower_bound = 0, calls = []\<rparr>)"

text \<open>The list comprehension over the chunks; the first failing chunk ends it.\<close>

fun cbpe_records :: "'c cbpe \<Rightarrow> chunk list \<Rightarrow> error + (string \<times> pyval) list list" where
  "cbpe_records self [] = Inr []"
| "cbpe_records self (chunk # chunks) =
     (case cbpe_estimate_chunk self chunk of
        Inl e \<Rightarrow> Inl e
      | Inr estimates \<Rightarrow>
          (case cbpe_records self chunks of
             Inl e \<Rightarrow> Inl e
           | Inr rs \<Rightarrow> Inr (chunk_record chunk estimates # rs)))"

text \<open>
  \<^verbatim>\<open>_BinaryClassificationCBPE._estimate\<close>. The outcome comes with the estimator and the
  caller's data frame as the call leaves them, also when it raises.
\<close>

definition cbpe_estimate ::
  "'c cbpe_env \<Rightarrow> 'c cbpe \<Rightarrow> dataframe \<Rightarrow> (error + table) \<times> 'c cbpe \<times> dataframe"
where
  "cbpe_estimate env self df =
     (if df_empty df then (Inl (InvalidArgumentsException NoRows), self, df)
      else case list_missing [y_pred_proba self, y_pred self] (df_columns df) of
        Inl e \<Rightarrow> (Inl e, self, df)
      | Inr _ \<Rightarrow>
     (case get_column df (y_pred_proba self) of
        Inl e \<Rightarrow> (Inl e, self, df)
      | Inr scores \<Rightarrow>
     (let df1 = set_column df (''uncalibrated_'' @ y_pred_proba self) scores
      in case (if needs_calibration self
               then (case get_column df1 (y_pred_proba self) of
                       Inl e \<Rightarrow> (Inl e, self, df1)
                     | Inr scores1 \<Rightarrow>
                         (Inr (),
                          self\<lparr>calls := calls self @ [Calibrate scores1]\<rparr>,
                          set_column df1 (y_pred_proba self)
                            (calibrate env (calibrator self) scores1)))
               else (Inr (), self, df1)) of
        (Inl e, self1, df2) \<Rightarrow> (Inl e, self1, df2)
      | (Inr _, self1, df2) \<Rightarrow>
     (let chunks = chunker self1 df2
      in case cbpe_records self1 chunks of
        Inl e \<Rightarrow> (Inl e, self1, df2)
      | Inr records \<Rightarrow>
     (case relabel (create_multilevel_index (map column_name (metrics self1))) records of
        Inl e \<Rightarrow> (Inl e, self1, df2)
      | Inr res \<Rightarrow>
          (let t = accumulate (result self1) res
           in (Inr t, self1\<lparr>result := Some t\<rparr>, df2)))))))"

text \<open>\<^verbatim>\<open>_BinaryClassificationCBPE._fit\<close>.\<close>

definition cbpe_fit ::
  "'c cbpe_env \<Rightarrow> 'c cbpe \<Rightarrow> dataframe \<Rightarrow> (error + unit) \<times> 'c cbpe \<times> dataframe"
where
  "cbpe_fit env self reference_data =
     (if df_empty reference_data then (Inl (InvalidArgumentsException NoRows), self, reference_data)
      else case list_missing [y_true self, y_pred_proba self, y_pred self]
                  (df_columns reference_data) of
        Inl e \<Rightarrow> (Inl e, self, reference_data)
      | Inr _ \<Rightarrow>
     (case get_column reference_data (y_pred_proba self) of
        Inl e \<Rightarrow> (Inl e, self, reference_data)
      | Inr scores \<Rightarrow>
     (let df1 = set_column reference_data (''uncalibrated_'' @ y_pred_proba self) scores;
          self1 = self\<lparr>metrics := map (\<lambda>metric. metric_fit env metric df1) (metrics self)\<rparr>
      in case get_column df1 (y_true self) of
        Inl e \<Rightarrow> (Inl e, self1, df1)
      | Inr labels \<Rightarrow>
     (case get_column df1 (y_pred_proba self) of
        Inl e \<Rightarrow> (Inl e, self1, df1)
      | Inr scores1 \<Rightarrow>
     (let nc = needs_calibration_fn env labels scores1 (calibrator self1);
          self2 = self1\<lparr>needs_calibration := nc, calls := calls self1 @ [NeedsCalibration]\<rparr>;
          self3 = (if nc
                   then self2\<lparr>calibrator := calibrator_fit env (calibrator self2) scores1 labels,
                              calls := calls self2 @ [CalibratorFit]\<rparr>
                   else self2)
      in case cbpe_estimate env self3 df1 of
        (Inl e, self4, df2) \<Rightarrow> (Inl e, self4, df2)
      | (Inr t, self4, df2) \<Rightarrow>
          (Inr (), self4\<lparr>result := Some (set_period_reference t)\<rparr>, df2))))))"

section \<open>Direct loss estimator\<close>

text \<open>
  The parameters of the regression strategy: \<^verbatim>\<open>_split_features_by_type\<close> of
  \<^verbatim>\<open>nannyml.base\<close>, the imputer and the label encoders of scikit-learn, and the
  \<^verbatim>\<open>fit\<close> of a metric. \<open>encoder_new\<close> is the encoder that the \<^verbatim>\<open>defaultdict\<close> makes for
  a column it has not seen.
\<close>

record ('i, 'e) dle_env =
  split_features_by_type :: "dataframe \<Rightarrow> string list \<Rightarrow> error + (string list \<times> string list)"
  imputer_fit_transform :: "'i \<Rightarrow> column list \<Rightarrow> 'i \<times> column list"
  imputer_transform :: "'i \<Rightarrow> column list \<Rightarrow> column list"
  encoder_new :: 'e
  encoder_fit_transform :: "'e \<Rightarrow> column \<Rightarrow> 'e \<times> column"
  encoder_transform :: "'e \<Rightarrow> column \<Rightarrow> error + column"
  dle_metric_fit :: "dle_metric \<Rightarrow> dataframe \<Rightarrow> dle_metric"

record ('i, 'e) dle = "dle_metric estimator" +
  feature_column_names :: "string list"
  categorical_imputer :: 'i
  categorical_encoders :: "(string \<times> 'e) list"

text \<open>\<^verbatim>\<open>df[names] = values\<close>: one column of values for each name, or ValueError.\<close>

definition assign_columns :: "dataframe \<Rightarrow> string list \<Rightarrow> column list \<Rightarrow> error + dataframe" where
  "assign_columns df names cs =
     (if length names \<noteq> length cs then Inl ValueError else Inr (set_columns df names cs))"

text \<open>
  \<^verbatim>\<open>df[names].apply(lambda x: encoders[x.name].fit_transform(x))\<close> and its
  \<^verbatim>\<open>transform\<close> counterpart, column by column.
\<close>

fun fit_encoders ::
  "('i, 'e) dle_env \<Rightarrow> (string \<times> 'e) list \<Rightarrow> string list \<Rightarrow> column list
     \<Rightarrow> (string \<times> 'e) list \<times> column list"
where
  "fit_encoders env encs (n # ns) (c # cs) =
     (let enc = (case map_of encs n of None \<Rightarrow> encoder_new env | Some e \<Rightarrow> e);
          (enc', codes) = encoder_fit_transform env enc c;
          (encs', rest) = fit_encoders env (AList.update n enc' encs) ns cs
      in (encs', codes # rest))"
| "fit_encoders env encs _ _ = (encs, [])"

fun transform_encoders ::
  "('i, 'e) dle_env \<Rightarrow> (string \<times> 'e) list \<Rightarrow> string list \<Rightarrow> column list
     \<Rightarrow> (error + column list) \<times> (string \<times> 'e) list"
where
  "transform_encoders env encs (n # ns) (c # cs) =
     (let enc = (case map_of encs n of None \<Rightarrow> encoder_new env | Some e \<Rightarrow> e);
          encs1 = (case map_of encs n of None \<Rightarrow> AList.update n enc encs | Some _ \<Rightarrow> encs)
      in case encoder_transform env enc c of
           Inl e \<Rightarrow> (Inl e, encs1)
         | Inr codes \<Rightarrow>
             (case transform_encoders env encs1 ns cs of
                (Inl e, encs2) \<Rightarrow> (Inl e, encs2)
              | (Inr rest, encs2) \<Rightarrow> (Inr (codes # rest), encs2)))"
| "transform_encoders env encs _ _ = (Inr [], encs)"

text \<open>The body of \<^verbatim>\<open>if len(categorical_feature_columns) > 0\<close> in \<^verbatim>\<open>DLE._fit\<close>.\<close>

definition dle_fit_categorical ::
  "('i, 'e) dle_env \<Rightarrow> ('i, 'e) dle \<Rightarrow> dataframe \<Rightarrow> string list
     \<Rightarrow> (error + unit) \<times> ('i, 'e) dle \<times> dataframe"
where
  "dle_fit_categorical env self df cats =
     (case get_columns df cats of
        Inl e \<Rightarrow> (Inl e, self, df)
      | Inr cs \<Rightarrow>
     (let (imp, imputed) = imputer_fit_transform env (categorical_imputer self) cs;
          self1 = self\<lparr>categorical_imputer := imp\<rparr>
      in case assign_columns df cats imputed of
        Inl e \<Rightarrow> (Inl e, self1, df)
      | Inr df1 \<Rightarrow>
     (case get_columns df1 cats of
        Inl e \<Rightarrow> (Inl e, self1, df1)
      | Inr cs1 \<Rightarrow>
     (let (encs, codes) = fit_encoders env (categorical_encoders self1) cats cs1;
          self2 = self1\<lparr>categorical_encoders := encs\<rparr>
      in case assign_columns df1 cats codes of
        Inl e \<Rightarrow> (Inl e, self2, df1)
      | Inr df2 \<Rightarrow> (Inr (), self2, df2)))))"

text \<open>The body of \<^verbatim>\<open>if len(categorical_feature_columns) > 0\<close> in \<^verbatim>\<open>DLE._estimate\<close>.\<close>

definition dle_transform_categorical ::
  "('i, 'e) dle_env \<Rightarrow> ('i, 'e) dle \<Rightarrow> dataframe \<Rightarrow> string list
     \<Rightarrow> (error + unit) \<times> ('i, 'e) dle \<times> dataframe"
where
  "dle_transform_categorical env self df cats =
     (case get_columns df cats of
        Inl e \<Rightarrow> (Inl e, self, df)
      | Inr cs \<Rightarrow>
     (case assign_columns df cats (imputer_transform env (categorical_imputer self) cs) of
        Inl e \<Rightarrow> (Inl e, self, df)
      | Inr df1 \<Rightarrow>
     (case get_columns df1 cats of
        Inl e \<Rightarrow> (Inl e, self, df1)
      | Inr cs1 \<Rightarrow>
     (case transform_encoders env (categorical_encoders self) cats cs1 of
        (Inl e, encs) \<Rightarrow> (Inl e, self\<lparr>categorical_encoders := encs\<rparr>, df1)
      | (Inr codes, encs) \<Rightarrow>
     (let self1 = self\<lparr>categorical_encoders := encs\<rparr>
      in case assign_columns df1 cats codes of
        Inl e \<Rightarrow> (Inl e, self1, df1)
      | Inr df2 \<Rightarrow> (Inr (), self1, df2))))))"

text \<open>\<^verbatim>\<open>DLE._estimate\<close>.\<close>

definition dle_estimate ::
  "('i, 'e) dle_env \<Rightarrow> ('i, 'e) dle \<Rightarrow> dataframe \<Rightarrow> (error + table) \<times> ('i, 'e) dle \<times> dataframe"
where
  "dle_estimate env self df =
     (if df_empty df then (Inl (InvalidArgumentsException NoRows), self, df)
      else case list_missing [y_pred self] (df_columns df) of
        Inl e \<Rightarrow> (Inl e, self, df)
      | Inr _ \<Rightarrow>
     (case split_features_by_type env df (feature_column_names self) of
        Inl e \<Rightarrow> (Inl e, self, df)
      | Inr (_, categorical_feature_columns) \<Rightarrow>
     (case (if length categorical_feature_columns > 0
            then dle_transform_categorical env self df categorical_feature_columns
            else (Inr (), self, df)) of
        (Inl e, self1, df1) \<Rightarrow> (Inl e, self1, df1)
      | (Inr _, self1, df1) \<Rightarrow>
     (let chunks = chunker self1 df1;
          records = map (\<lambda>chunk. chunk_record chunk (dle_estimate_chunk (metrics self1) chunk)) chunks
      in case relabel (create_multilevel_index (map column_name (metrics self1))) records of
        Inl e \<Rightarrow> (Inl e, self1, df1)
      | Inr res \<Rightarrow>
          (let t = accumulate (result self1) res
           in (Inr t, self1\<lparr>result := Some t\<rparr>, df1))))))"

text \<open>\<^verbatim>\<open>DLE._fit\<close>.\<close>

definition dle_fit ::
  "('i, 'e) dle_env \<Rightarrow> ('i, 'e) dle \<Rightarrow> dataframe \<Rightarrow> (error + unit) \<times> ('i, 'e) dle \<times> dataframe"
where
  "dle_fit env self reference_data =
     (if df_empty reference_data then (Inl (InvalidArgumentsException NoRows), self, reference_data)
      else case list_missing [y_true self, y_pred self] (df_columns reference_data) of
        Inl e \<Rightarrow> (Inl e, self, reference_data)
      | Inr _ \<Rightarrow>
     (case split_features_by_type env reference_data (feature_column_names self) of
        Inl e \<Rightarrow> (Inl e, self, reference_data)
      | Inr (_, categorical_feature_columns) \<Rightarrow>
     (case (if length categorical_feature_columns > 0
            then dle_fit_categorical env self reference_data categorical_feature_columns
            else (Inr (), self, reference_data)) of
        (Inl e, self1, df1) \<Rightarrow> (Inl e, self1, df1)
      | (Inr _, self1, df1) \<Rightarrow>
     (let self2 = self1\<lparr>metrics := map (\<lambda>metric. dle_metric_fit env metric df1) (metrics self1)\<rparr>
      in case dle_estimate env self2 df1 of
        (Inl e, self3, df2) \<Rightarrow> (Inl e, self3, df2)
      | (Inr t, self3, df2) \<Rightarrow>
          (Inr (), self3\<lparr>result := Some (set_period_reference t)\<rparr>, df2)))))"

section \<open>Reachable states and auxiliary notions\<close>

text \<open>The states of a classification estimator: built by the constructor, then fitted
  and used any number of times, whatever the outcome of each call.\<close>

inductive cbpe_reachable :: "'c cbpe_env \<Rightarrow> 'c cbpe \<Rightarrow> bool" for env :: "'c cbpe_env" where
  reach_init: "cbpe_init ms yp ypp yt ch cal nc = Inr s \<Longrightarrow> cbpe_reachable env s"
| reach_fit: "cbpe_reachable env s \<Longrightarrow> cbpe_fit env s df = (r, s', df') \<Longrightarrow> cbpe_reachable env s'"
| reach_estimate:
    "cbpe_reachable env s \<Longrightarrow> cbpe_estimate env s df = (t, s', df') \<Longrightarrow> cbpe_reachable env s'"

text \<open>The keys that one round of either loop writes for a metric of the given name.\<close>

definition metric_keys :: "string \<Rightarrow> string list" where
  "metric_keys n =
     [''sampling_error_'' @ n, ''realized_'' @ n, ''estimated_'' @ n, ''upper_confidence_'' @ n,
      ''lower_confidence_'' @ n, ''upper_threshold_'' @ n, ''lower_threshold_'' @ n,
      ''alert_'' @ n]"

text \<open>What a dictionary holds for a metric after its round of the classification loop.\<close>

definition cbpe_entries :: "'c cbpe \<Rightarrow> chunk \<Rightarrow> metric \<Rightarrow> (string \<rightharpoonup> pyval) \<Rightarrow> bool" where
  "cbpe_entries self c m f =
     (f (''estimated_'' @ column_name m) = Some (PFloat (estimate m (data c))) \<and>
      f (''upper_confidence_'' @ column_name m) =
        Some (PFloat (min (confidence_upper_bound self)
          (estimate m (data c) + SAMPLING_ERROR_RANGE * sampling_error m (data c)))) \<and>
      f (''lower_confidence_'' @ column_name m) =
        Some (PFloat (max (confidence_lower_bound self)
          (estimate m (data c) - SAMPLING_ERROR_RANGE * sampling_error m (data c)))) \<and>
      f (''upper_threshold_'' @ column_name m) = Some (of_optional (upper_threshold m)) \<and>
      f (''lower_threshold_'' @ column_name m) = Some (of_optional (lower_threshold m)) \<and>
      f (''alert_'' @ column_name m) =
        Some (PBool ((\<exists>u. upper_threshold m = Some u \<and> estimate m (data c) > u) \<or>
                     (\<exists>l. lower_threshold m = Some l \<and> estimate m (data c) < l))) \<and>
      upper_threshold m \<noteq> None)"

text \<open>The same for the regression loop.\<close>

definition dle_entries :: "chunk \<Rightarrow> dle_metric \<Rightarrow> (string \<rightharpoonup> pyval) \<Rightarrow> bool" where
  "dle_entries c m f =
     (f (''estimated_'' @ column_name m) = Some (PFloat (estimate m (data c))) \<and>
      f (''upper_confidence_'' @ column_name m) =
        Some (PFloat (case upper_value_limit m of
                        None \<Rightarrow> estimate m (data c) + 3 * sampling_error m (data c)
                      | Some v \<Rightarrow> min v (estimate m (data c) + 3 * sampling_error m (data c)))) \<and>
      f (''lower_confidence_'' @ column_name m) =
        Some (PFloat (case lower_value_limit m of
                        None \<Rightarrow> estimate m (data c) - 3 * sampling_error m (data c)
                      | Some v \<Rightarrow> max v (estimate m (data c) - 3 * sampling_error m (data c)))) \<and>
      f (''upper_threshold_'' @ column_name m) = Some (of_optional (upper_threshold m)) \<and>
      f (''lower_threshold_'' @ column_name m) = Some (of_optional (lower_threshold m)) \<and>
      f (''alert_'' @ column_name m) =
        Some (PBool ((\<exists>u. upper_threshold m = Some u \<and> u \<noteq> 0 \<and> estimate m (data c) > u) \<or>
                     (\<exists>l. lower_threshold m = Some l \<and> l \<noteq> 0 \<and> estimate m (data c) < l))))"

section \<open>Sample inputs\<close>

text \<open>A data frame of two rows with a score, a prediction, a label and a feature column.\<close>

definition df0 :: dataframe where
  "df0 = \<lparr>nrows = 2,
          cols = [(''y_pred_proba'', [PFloat 0.9, PFloat 0.2]),
                  (''y_pred'', [PInt 1, PInt 0]),
                  (''y_true'', [PInt 1, PInt 0]),
                  (''fuel'', [PStr ''gas'', PNone])]\<rparr>"

definition chunk0 :: chunk where
  "chunk0 = \<lparr>key = ''[0:1]'', chunk_index = 0, start_index = 0, end_index = 1,
             start_datetime = PNone, end_datetime = PNone, data = df0\<rparr>"

text \<open>A classification metric with both thresholds, and regression metrics: one whose
  upper threshold is 0.0, one whose estimate is below its lower value limit.\<close>

definition roc_auc0 :: metric where
  "roc_auc0 = \<lparr>column_name = ''roc_auc'', upper_threshold = Some 0.9, lower_threshold = Some 0.7,
               estimate = (\<lambda>_. 0.95), sampling_error = (\<lambda>_. 0.01),
               realized_performance = (\<lambda>_. PFloat 0.9)\<rparr>"

definition mae0 :: dle_metric where
  "mae0 = \<lparr>column_name = ''mae'', upper_threshold = Some 0, lower_threshold = None,
           estimate = (\<lambda>_. 1), sampling_error = (\<lambda>_. 0.5),
           realized_performance = (\<lambda>_. PFloat 0),
           upper_value_limit = None, lower_value_limit = Some 0\<rparr>"

definition mse0 :: dle_metric where
  "mse0 = \<lparr>column_name = ''mse'', upper_threshold = Some 2, lower_threshold = Some 1,
           estimate = (\<lambda>_. - 1), sampling_error = (\<lambda>_. 0),
           realized_performance = (\<lambda>_. PFloat 1.5),
           upper_value_limit = None, lower_value_limit = Some 0\<rparr>"

definition cbpe_logged :: "'c cbpe \<Rightarrow> column \<Rightarrow> 'c cbpe" where
  "cbpe_logged self scores =
     (if needs_calibration self then self\<lparr>calls := calls self @ [Calibrate scores]\<rparr> else self)"

definition cbpe_calibrated :: "'c cbpe_env \<Rightarrow> 'c cbpe \<Rightarrow> dataframe \<Rightarrow> column \<Rightarrow> dataframe" where
  "cbpe_calibrated env self df scores =
     (if needs_calibration self
      then set_column (set_column df (''uncalibrated_'' @ y_pred_proba self) scores)
             (y_pred_proba self) (calibrate env (calibrator self) scores)
      else set_column df (''uncalibrated_'' @ y_pred_proba self) scores)"

definition cbpe_new_rows :: "'c cbpe \<Rightarrow> dataframe \<Rightarrow> error + table" where
  "cbpe_new_rows self df =
     (case cbpe_records self (chunker self df) of
        Inl e \<Rightarrow> Inl e
      | Inr records \<Rightarrow> relabel (create_multilevel_index (map column_name (metrics self))) records)"

definition period_of :: "row \<Rightarrow> pyval option" where
  "period_of r = map_of r (''chunk'', ''period'')"

definition chunk_keys :: "string list" where
  "chunk_keys = [''key'', ''chunk_index'', ''start_index'', ''end_index'', ''start_date'',
                 ''end_date'', ''period'']"

definition cbpe_fitted :: "'c cbpe_env \<Rightarrow> 'c cbpe \<Rightarrow> dataframe \<Rightarrow> column \<Rightarrow> column \<Rightarrow> 'c cbpe" where
  "cbpe_fitted env self df1 labels scores =
     (let self1 = self\<lparr>metrics := map (\<lambda>metric. metric_fit env metric df1) (metrics self)\<rparr>;
          nc = needs_calibration_fn env labels scores (calibrator self1);
          self2 = self1\<lparr>needs_calibration := nc, calls := calls self1 @ [NeedsCalibration]\<rparr>
      in if nc
         then self2\<lparr>calibrator := calibrator_fit env (calibrator self2) scores labels,
                    calls := calls self2 @ [CalibratorFit]\<rparr>
         else self2)"

definition cbpe0 :: "unit cbpe" where
  "cbpe0 = \<lparr>metrics = [roc_auc0], y_pred = ''y_pred'', y_true = ''y_true'',
            chunker = (\<lambda>df. [chunk0\<lparr>data := df\<rparr>]), result = None,
            y_pred_proba = ''y_pred_proba'', calibrator = (), needs_calibration = False,
            confidence_upper_bound = 1, confidence_lower_bound = 0, calls = []\<rparr>"

definition env0 :: "unit cbpe_env" where
  "env0 = \<lparr>needs_calibration_fn = (\<lambda>labels scores _. labels \<noteq> scores),
           calibrator_fit = (\<lambda>c _ _. c),
           calibrate = (\<lambda>_ scores. map (\<lambda>_. PFloat 0.5) scores),
           metric_fit = (\<lambda>m _. m)\<rparr>"

definition dle_new_rows :: "('i, 'e) dle \<Rightarrow> dataframe \<Rightarrow> error + table" where
  "dle_new_rows self df =
     relabel (create_multilevel_index (map column_name (metrics self)))
       (map (\<lambda>chunk. chunk_record chunk (dle_estimate_chunk (metrics self) chunk))
          (chunker self df))"

definition dle_prepared ::
  "('i, 'e) dle_env \<Rightarrow> ('i, 'e) dle \<Rightarrow> dataframe \<Rightarrow> string list
     \<Rightarrow> (error + unit) \<times> ('i, 'e) dle \<times> dataframe" where
  "dle_prepared env self df cats =
     (if length cats > 0 then dle_transform_categorical env self df cats else (Inr (), self, df))"

definition dle_fit_prepared ::
  "('i, 'e) dle_env \<Rightarrow> ('i, 'e) dle \<Rightarrow> dataframe \<Rightarrow> string list
     \<Rightarrow> (error + unit) \<times> ('i, 'e) dle \<times> dataframe" where
  "dle_fit_prepared env self df cats =
     (if length cats > 0 then dle_fit_categorical env self df cats else (Inr (), self, df))"

definition row0 :: "string \<Rightarrow> row" where
  "row0 p =
     [((''chunk'', ''key''), PStr ''[0:1]''), ((''chunk'', ''chunk_index''), PInt 0),
      ((''chunk'', ''start_index''), PInt 0), ((''chunk'', ''end_index''), PInt 1),
      ((''chunk'', ''start_date''), PNone), ((''chunk'', ''end_date''), PNone),
      ((''chunk'', ''period''), PStr p),
      ((''roc_auc'', ''sampling_error''), PFloat 0.01), ((''roc_auc'', ''realized''), PFloat 0.9),
      ((''roc_auc'', ''value''), PFloat 0.95),
      ((''roc_auc'', ''upper_confidence_boundary''), PFloat 0.98),
      ((''roc_auc'', ''lower_confidence_boundary''), PFloat 0.92),
      ((''roc_auc'', ''upper_threshold''), PFloat 0.9),
      ((''roc_auc'', ''lower_threshold''), PFloat 0.7), ((''roc_auc'', ''alert''), PBool True)]"

definition sample_like :: "'c cbpe \<Rightarrow> bool" where
  "sample_like s =
     (metrics s = [roc_auc0] \<and> confidence_upper_bound s = 1 \<and> confidence_lower_bound s = 0 \<and>
      chunker s = (\<lambda>df. [chunk0\<lparr>data := df\<rparr>]) \<and> y_pred_proba s = ''y_pred_proba'' \<and>
      y_pred s = ''y_pred'' \<and> y_true s = ''y_true'')"

definition denv0 :: "(unit, unit) dle_env" where
  "denv0 = \<lparr>split_features_by_type = (\<lambda>_ fs. Inr ([], fs)),
            imputer_fit_transform =
              (\<lambda>i cs. (i, map (map (\<lambda>v. if v = PNone then PStr ''NML_missing_value'' else v)) cs)),
            imputer_transform =
              (\<lambda>i cs. map (map (\<lambda>v. if v = PNone then PStr ''NML_missing_value'' else v)) cs),
            encoder_new = (),
            encoder_fit_transform =
              (\<lambda>e c. (e, map (\<lambda>v. PInt (if v = PStr ''NML_missing_value'' then 0 else 1)) c)),
            encoder_transform =
              (\<lambda>e c. Inr (map (\<lambda>v. PInt (if v = PStr ''NML_missing_value'' then 0 else 1)) c)),
            dle_metric_fit = (\<lambda>m _. m)\<rparr>"

definition dle0 :: "(unit, unit) dle" where
  "dle0 = \<lparr>metrics = [mae0], y_pred = ''y_pred'', y_true = ''y_true'',
           chunker = (\<lambda>df. [chunk0\<lparr>data := df\<rparr>]), result = None,
           feature_column_names = [''fuel''], categorical_imputer = (),
           categorical_encoders = []\<rparr>"

definition drow0 :: "string \<Rightarrow> row" where
  "drow0 p =
     [((''chunk'', ''key''), PStr ''[0:1]''), ((''chunk'', ''chunk_index''), PInt 0),
      ((''chunk'', ''start_index''), PInt 0), ((''chunk'', ''end_index''), PInt 1),
      ((''chunk'', ''start_date''), PNone), ((''chunk'', ''end_date''), PNone),
      ((''chunk'', ''period''), PStr p),
      ((''mae'', ''sampling_error''), PFloat 0.5), ((''mae'', ''realized''), PFloat 0),
      ((''mae'', ''value''), PFloat 1),
      ((''mae'', ''upper_confidence_boundary''), PFloat 2.5),
      ((''mae'', ''lower_confidence_boundary''), PFloat 0),
      ((''mae'', ''upper_threshold''), PFloat 0),
      ((''mae'', ''lower_threshold''), PNone), ((''mae'', ''alert''), PBool False)]"

definition dle_sample_like :: "('i, 'e) dle \<Rightarrow> bool" where
  "dle_sample_like s =
     (metrics s = [mae0] \<and> chunker s = (\<lambda>df. [chunk0\<lparr>data := df\<rparr>]) \<and>
      y_pred s = ''y_pred'' \<and> y_true s = ''y_true'' \<and> feature_column_names s = [''fuel''])"

definition recode0 :: "column \<Rightarrow> column" where
  "recode0 c =
     map (\<lambda>v. PInt (if v = PStr ''NML_missing_value'' then 0 else 1))
       (map (\<lambda>v. if v = PNone then PStr ''NML_missing_value'' else v) c)"

section \<open>Dictionary entries of a chunk\<close>

lemma cbpe_loop_other:
  "cbpe_estimate_chunk_loop self c ms acc = Inr d \<Longrightarrow>
   (\<forall>m \<in> set ms. k \<notin> set (metric_keys (column_name m))) \<Longrightarrow>
   map_of d k = map_of acc k"
proof (induction ms arbitrary: acc)
  case Nil
  then show ?case by simp
next
  case (Cons m ms)
  then show ?case
    by (auto simp: Let_def metric_keys_def update_conv' split: option.splits if_splits)
qed

lemma metric_keys_disjoint:
  "n \<noteq> n' \<Longrightarrow> k \<in> set (metric_keys n) \<Longrightarrow> k \<notin> set (metric_keys n')"
  by (auto simp: metric_keys_def)

lemma dle_loop_other:
  "(\<forall>m \<in> set ms. k \<notin> set (metric_keys (column_name m))) \<Longrightarrow>
   map_of (dle_estimate_chunk_loop c ms acc) k = map_of acc k"
proof (induction ms arbitrary: acc)
  case Nil
  then show ?case by simp
next
  case (Cons m ms)
  then show ?case
    by (simp add: Let_def metric_keys_def update_conv')
qed

lemma cbpe_entries_cong:
  "cbpe_entries self c m f \<Longrightarrow> (\<And>k. k \<in> set (metric_keys (column_name m)) \<Longrightarrow> g k = f k) \<Longrightarrow>
   cbpe_entries self c m g"
  by (simp add: cbpe_entries_def metric_keys_def)

lemma dle_entries_cong:
  "dle_entries c m f \<Longrightarrow> (\<And>k. k \<in> set (metric_keys (column_name m)) \<Longrightarrow> g k = f k) \<Longrightarrow>
   dle_entries c m g"
  by (simp add: dle_entries_def metric_keys_def)

lemma cbpe_loop_step:
  assumes "cbpe_estimate_chunk_loop self c (a # ms) acc = Inr d"
  shows "\<exists>acc'. cbpe_estimate_chunk_loop self c ms acc' = Inr d \<and> cbpe_entries self c a (map_of acc')"
proof (cases "upper_threshold a")
  case None
  with assms show ?thesis by (simp add: Let_def)
next
  case (Some u)
  show ?thesis
  proof (cases "estimate a (data c) > u")
    case True
    with Some assms show ?thesis
      apply (simp add: Let_def)
      apply (rule exI, erule conjI)
      apply (simp add: cbpe_entries_def update_conv')
      done
  next
    case False
    show ?thesis
    proof (cases "lower_threshold a")
      case None
      with Some False assms show ?thesis by (simp add: Let_def)
    next
      case (Some l)
      with \<open>upper_threshold a = Some u\<close> False assms show ?thesis
        apply (simp add: Let_def)
        apply (rule exI, erule conjI)
        apply (simp add: cbpe_entries_def update_conv')
        done
    qed
  qed
qed

lemma cbpe_loop_entries:
  "distinct (map column_name ms) \<Longrightarrow> m \<in> set ms \<Longrightarrow>
   cbpe_estimate_chunk_loop self c ms acc = Inr d \<Longrightarrow> cbpe_entries self c m (map_of d)"
proof (induction ms arbitrary: acc)
  case Nil
  then show ?case by simp
next
  case (Cons a ms)
  from cbpe_loop_step[OF Cons.prems(3)] obtain acc' where
    loop: "cbpe_estimate_chunk_loop self c ms acc' = Inr d" and
    ent: "cbpe_entries self c a (map_of acc')" by blast
  show ?case
  proof (cases "m = a")
    case True
    have "map_of d k = map_of acc' k" if "k \<in> set (metric_keys (column_name a))" for k
    proof (rule cbpe_loop_other[OF loop], rule ballI)
      fix m' assume "m' \<in> set ms"
      with Cons.prems(1) have "column_name a \<noteq> column_name m'" by auto
      from metric_keys_disjoint[OF this that] show "k \<notin> set (metric_keys (column_name m'))" .
    qed
    with ent True show ?thesis by (auto intro: cbpe_entries_cong)
  next
    case False
    with Cons.prems have "m \<in> set ms" "distinct (map column_name ms)" by auto
    from Cons.IH[OF this(2) this(1) loop] show ?thesis .
  qed
qed

lemma dle_loop_step:
  "\<exists>acc'. dle_estimate_chunk_loop c (a # ms) acc = dle_estimate_chunk_loop c ms acc' \<and>
          dle_entries c a (map_of acc')"
  unfolding dle_estimate_chunk_loop.simps Let_def
  apply (rule exI, rule conjI, rule refl)
  apply (cases "upper_threshold a"; cases "lower_threshold a")
  apply (simp_all add: dle_entries_def update_conv' truthy_def)
  done

lemma dle_loop_entries:
  "distinct (map column_name ms) \<Longrightarrow> m \<in> set ms \<Longrightarrow>
   dle_entries c m (map_of (dle_estimate_chunk_loop c ms acc))"
proof (induction ms arbitrary: acc)
  case Nil
  then show ?case by simp
next
  case (Cons a ms)
  from dle_loop_step[of c a ms acc] obtain acc' where
    loop: "dle_estimate_chunk_loop c (a # ms) acc = dle_estimate_chunk_loop c ms acc'" and
    ent: "dle_entries c a (map_of acc')" by blast
  show ?case
  proof (cases "m = a")
    case True
    have "map_of (dle_estimate_chunk_loop c ms acc') k = map_of acc' k"
      if "k \<in> set (metric_keys (column_name a))" for k
    proof (rule dle_loop_other, rule ballI)
      fix m' assume "m' \<in> set ms"
      with Cons.prems(1) have "column_name a \<noteq> column_name m'" by auto
      from metric_keys_disjoint[OF this that] show "k \<notin> set (metric_keys (column_name m'))" .
    qed
    with ent True loop show ?thesis by (auto intro: dle_entries_cong)
  next
    case False
    with Cons.prems have "m \<in> set ms" "distinct (map column_name ms)" by auto
    from Cons.IH[OF this(2) this(1)] loop show ?thesis by simp
  qed
qed

section \<open>Confidence band, layout and alert of the regression strategy\<close>

lemma concat_blocks:
  "(\<And>x. length (f x) = k) \<Longrightarrow> i < length xs \<Longrightarrow>
   take k (drop (k * i) (concat (map f xs))) = f (xs ! i)"
proof (induction xs arbitrary: i)
  case Nil
  then show ?case by simp
next
  case (Cons x xs)
  show ?case
  proof (cases i)
    case 0
    with Cons.prems(1)[of x] show ?thesis by simp
  next
    case (Suc j)
    with Cons.prems have "j < length xs" by simp
    from Cons.IH[OF Cons.prems(1) this] Suc Cons.prems(1)[of x] show ?thesis
      by (simp add: add.commute)
  qed
qed

text \<open>
  Claim C3. For every chunk and every metric of the regression strategy (metrics with
  distinct column names), the dictionary of \<^verbatim>\<open>_estimate_chunk\<close> holds as upper confidence
  boundary the estimate plus three sampling errors, clipped to \<open>upper_value_limit\<close> only when
  that limit is defined, and as lower confidence boundary the estimate minus three sampling
  errors, clipped to \<open>lower_value_limit\<close> only when that limit is defined.
\<close>

theorem dle_confidence_band:
  assumes "distinct (map column_name ms)" and "m \<in> set ms"
  shows "map_of (dle_estimate_chunk ms c) (''upper_confidence_'' @ column_name m) =
           Some (PFloat (case upper_value_limit m of
                           None \<Rightarrow> estimate m (data c) + 3 * sampling_error m (data c)
                         | Some v \<Rightarrow> min v (estimate m (data c) + 3 * sampling_error m (data c))))
       \<and> map_of (dle_estimate_chunk ms c) (''lower_confidence_'' @ column_name m) =
           Some (PFloat (case lower_value_limit m of
                           None \<Rightarrow> estimate m (data c) - 3 * sampling_error m (data c)
                         | Some v \<Rightarrow> max v (estimate m (data c) - 3 * sampling_error m (data c))))"
  using dle_loop_entries[OF assms, of c "[]"]
  by (simp add: dle_estimate_chunk_def dle_entries_def)

text \<open>The band of the sample metric \<open>mae0\<close>: no upper limit, lower limit 0.\<close>

theorem dle_confidence_band_witness:
  "map_of (dle_estimate_chunk [mae0, mse0] chunk0) ''upper_confidence_mae'' = Some (PFloat 2.5)
   \<and> map_of (dle_estimate_chunk [mae0, mse0] chunk0) ''lower_confidence_mae'' = Some (PFloat 0)"
  using dle_confidence_band[of "[mae0, mse0]" mae0 chunk0]
  by (simp add: mae0_def mse0_def)

text \<open>
  Claim C8. For every list of metric names, \<^verbatim>\<open>_create_multilevel_index\<close> returns the
  seven chunk columns under the group \<^verbatim>\<open>chunk\<close>, followed, for each metric name in the
  order of the input, by its eight columns in their fixed order: the index has
  \<open>7 + 8 * n\<close> labels, and the block of the \<open>i\<close>-th name starts at position \<open>7 + 8 * i\<close>.
\<close>

theorem create_multilevel_index_layout:
  "create_multilevel_index ns =
     [(''chunk'', ''key''), (''chunk'', ''chunk_index''), (''chunk'', ''start_index''),
      (''chunk'', ''end_index''), (''chunk'', ''start_date''), (''chunk'', ''end_date''),
      (''chunk'', ''period'')] @
     concat (map (\<lambda>n. [(n, ''sampling_error''), (n, ''realized''), (n, ''value''),
                        (n, ''upper_confidence_boundary''), (n, ''lower_confidence_boundary''),
                        (n, ''upper_threshold''), (n, ''lower_threshold''), (n, ''alert'')]) ns)
   \<and> length (create_multilevel_index ns) = 7 + 8 * length ns
   \<and> (\<forall>i < length ns.
        take 8 (drop (7 + 8 * i) (create_multilevel_index ns)) =
          [(ns ! i, ''sampling_error''), (ns ! i, ''realized''), (ns ! i, ''value''),
           (ns ! i, ''upper_confidence_boundary''), (ns ! i, ''lower_confidence_boundary''),
           (ns ! i, ''upper_threshold''), (ns ! i, ''lower_threshold''), (ns ! i, ''alert'')])"
proof -
  let ?f = "\<lambda>n::string. [(n, ''sampling_error''), (n, ''realized''), (n, ''value''),
                        (n, ''upper_confidence_boundary''), (n, ''lower_confidence_boundary''),
                        (n, ''upper_threshold''), (n, ''lower_threshold''), (n, ''alert'')]"
  let ?chunk = "[(''chunk'', ''key''), (''chunk'', ''chunk_index''), (''chunk'', ''start_index''),
      (''chunk'', ''end_index''), (''chunk'', ''start_date''), (''chunk'', ''end_date''),
      (''chunk'', ''period'')]"
  have eq: "create_multilevel_index ns = ?chunk @ concat (map ?f ns)"
    by (simp add: create_multilevel_index_def chunk_column_names_def method_column_names_def)
  have len: "length (concat (map ?f ns)) = 8 * length ns"
    by (induction ns) simp_all
  have shift: "drop (7 + 8 * i) (?chunk @ ys) = drop (8 * i) ys" for i and ys :: "label list"
  proof -
    have "drop (7 + 8 * i) (?chunk @ ys) = drop (8 * i) (drop 7 (?chunk @ ys))"
      by (simp only: drop_drop add.commute)
    also have "drop 7 (?chunk @ ys) = ys" by simp
    finally show ?thesis .
  qed
  have blocks: "take 8 (drop (7 + 8 * i) (?chunk @ concat (map ?f ns))) = ?f (ns ! i)"
    if "i < length ns" for i
    unfolding shift using concat_blocks[of ?f 8 i ns] that by simp
  show ?thesis
    unfolding eq using len blocks by simp
qed

text \<open>The layout for the names \<^verbatim>\<open>mae\<close> and \<^verbatim>\<open>rmse\<close>, and the block of the second.\<close>

theorem create_multilevel_index_layout_witness:
  "create_multilevel_index [''mae'', ''rmse''] =
     [(''chunk'', ''key''), (''chunk'', ''chunk_index''), (''chunk'', ''start_index''),
      (''chunk'', ''end_index''), (''chunk'', ''start_date''), (''chunk'', ''end_date''),
      (''chunk'', ''period''),
      (''mae'', ''sampling_error''), (''mae'', ''realized''), (''mae'', ''value''),
      (''mae'', ''upper_confidence_boundary''), (''mae'', ''lower_confidence_boundary''),
      (''mae'', ''upper_threshold''), (''mae'', ''lower_threshold''), (''mae'', ''alert''),
      (''rmse'', ''sampling_error''), (''rmse'', ''realized''), (''rmse'', ''value''),
      (''rmse'', ''upper_confidence_boundary''), (''rmse'', ''lower_confidence_boundary''),
      (''rmse'', ''upper_threshold''), (''rmse'', ''lower_threshold''), (''rmse'', ''alert'')]
   \<and> (1::nat) < length [''mae'', ''rmse'']
   \<and> take 8 (drop 15 (create_multilevel_index [''mae'', ''rmse''])) =
       [(''rmse'', ''sampling_error''), (''rmse'', ''realized''), (''rmse'', ''value''),
        (''rmse'', ''upper_confidence_boundary''), (''rmse'', ''lower_confidence_boundary''),
        (''rmse'', ''upper_threshold''), (''rmse'', ''lower_threshold''), (''rmse'', ''alert'')]"
proof -
  have h: "(1::nat) < length [''mae'', ''rmse'']" by simp
  from create_multilevel_index_layout[of "[''mae'', ''rmse'']"]
  have a: "create_multilevel_index [''mae'', ''rmse''] =
     [(''chunk'', ''key''), (''chunk'', ''chunk_index''), (''chunk'', ''start_index''),
      (''chunk'', ''end_index''), (''chunk'', ''start_date''), (''chunk'', ''end_date''),
      (''chunk'', ''period'')] @
     concat (map (\<lambda>n. [(n, ''sampling_error''), (n, ''realized''), (n, ''value''),
                        (n, ''upper_confidence_boundary''), (n, ''lower_confidence_boundary''),
                        (n, ''upper_threshold''), (n, ''lower_threshold''), (n, ''alert'')])
                 [''mae'', ''rmse''])"
    and b: "\<forall>i < length [''mae'', ''rmse''].
        take 8 (drop (7 + 8 * i) (create_multilevel_index [''mae'', ''rmse''])) =
          [([''mae'', ''rmse''] ! i, ''sampling_error''), ([''mae'', ''rmse''] ! i, ''realized''),
           ([''mae'', ''rmse''] ! i, ''value''),
           ([''mae'', ''rmse''] ! i, ''upper_confidence_boundary''),
           ([''mae'', ''rmse''] ! i, ''lower_confidence_boundary''),
           ([''mae'', ''rmse''] ! i, ''upper_threshold''),
           ([''mae'', ''rmse''] ! i, ''lower_threshold''), ([''mae'', ''rmse''] ! i, ''alert'')]"
    by blast+
  from b h have "take 8 (drop (7 + 8 * 1) (create_multilevel_index [''mae'', ''rmse''])) =
       [(''rmse'', ''sampling_error''), (''rmse'', ''realized''), (''rmse'', ''value''),
        (''rmse'', ''upper_confidence_boundary''), (''rmse'', ''lower_confidence_boundary''),
        (''rmse'', ''upper_threshold''), (''rmse'', ''lower_threshold''), (''rmse'', ''alert'')]"
    by (metis nth_Cons_0 nth_Cons_Suc One_nat_def)
  then have c: "take 8 (drop 15 (create_multilevel_index [''mae'', ''rmse''])) =
       [(''rmse'', ''sampling_error''), (''rmse'', ''realized''), (''rmse'', ''value''),
        (''rmse'', ''upper_confidence_boundary''), (''rmse'', ''lower_confidence_boundary''),
        (''rmse'', ''upper_threshold''), (''rmse'', ''lower_threshold''), (''rmse'', ''alert'')]"
    by simp
  from a have a': "create_multilevel_index [''mae'', ''rmse''] =
     [(''chunk'', ''key''), (''chunk'', ''chunk_index''), (''chunk'', ''start_index''),
      (''chunk'', ''end_index''), (''chunk'', ''start_date''), (''chunk'', ''end_date''),
      (''chunk'', ''period''),
      (''mae'', ''sampling_error''), (''mae'', ''realized''), (''mae'', ''value''),
      (''mae'', ''upper_confidence_boundary''), (''mae'', ''lower_confidence_boundary''),
      (''mae'', ''upper_threshold''), (''mae'', ''lower_threshold''), (''mae'', ''alert''),
      (''rmse'', ''sampling_error''), (''rmse'', ''realized''), (''rmse'', ''value''),
      (''rmse'', ''upper_confidence_boundary''), (''rmse'', ''lower_confidence_boundary''),
      (''rmse'', ''upper_threshold''), (''rmse'', ''lower_threshold''), (''rmse'', ''alert'')]"
    by simp
  from a' h c show ?thesis by blast
qed

text \<open>
  Claim C1, at an upper threshold of 0.0. The regression strategy tests the truth value of
  a threshold, not whether it is \<^verbatim>\<open>None\<close>: with the upper threshold defined as 0.0 and an
  estimate of 1 above it, the alert of the chunk is false.
\<close>

theorem dle_alert_zero_threshold:
  "upper_threshold mae0 = Some 0 \<and> estimate mae0 (data chunk0) = 1
   \<and> map_of (dle_estimate_chunk [mae0] chunk0) ''alert_mae'' = Some (PBool False)"
  by (simp add: dle_estimate_chunk_def mae0_def Let_def update_conv' truthy_def)

section \<open>Validation and the prepared frame\<close>

lemma prefixed_neq [simp]: "p \<noteq> [] \<Longrightarrow> p @ x \<noteq> x" "p \<noteq> [] \<Longrightarrow> x \<noteq> p @ x"
  by (auto dest: arg_cong[where f = length])

lemma list_missing_ok: "set req \<subseteq> set cs \<Longrightarrow> list_missing req cs = Inr ()"
  by (auto simp: list_missing_def filter_empty_conv)

lemma list_missing_fail:
  "\<not> set req \<subseteq> set cs \<Longrightarrow>
   list_missing req cs =
     Inl (InvalidArgumentsException (MissingColumns (filter (\<lambda>col. col \<notin> set cs) req) cs))"
  by (auto simp: list_missing_def filter_empty_conv)

lemma get_column_present:
  "n \<in> set (df_columns df) \<Longrightarrow> \<exists>c. map_of (cols df) n = Some c \<and> get_column df n = Inr c"
  by (cases "map_of (cols df) n")
     (auto simp: get_column_def df_columns_def map_of_eq_None_iff)

lemma get_set_column:
  "get_column (set_column df n c) k = (if k = n then Inr c else get_column df k)"
  by (simp add: get_column_def set_column_def update_conv')

lemma cbpe_estimate_valid:
  assumes "\<not> df_empty df" and "y_pred_proba self \<in> set (df_columns df)"
    and "y_pred self \<in> set (df_columns df)"
    and "map_of (cols df) (y_pred_proba self) = Some scores"
  shows "cbpe_estimate env self df =
     (case cbpe_new_rows (cbpe_logged self scores) (cbpe_calibrated env self df scores) of
        Inl e \<Rightarrow> (Inl e, cbpe_logged self scores, cbpe_calibrated env self df scores)
      | Inr res \<Rightarrow>
          (Inr (accumulate (result self) res),
           (cbpe_logged self scores)\<lparr>result := Some (accumulate (result self) res)\<rparr>,
           cbpe_calibrated env self df scores))"
proof -
  have lm: "list_missing [y_pred_proba self, y_pred self] (df_columns df) = Inr ()"
    using assms(2,3) by (intro list_missing_ok) simp
  have gc: "get_column df (y_pred_proba self) = Inr scores"
    using assms(4) by (simp add: get_column_def)
  show ?thesis
  proof (cases "needs_calibration self")
    case True
    then show ?thesis
      using assms(1) lm gc
      by (simp add: cbpe_estimate_def get_set_column cbpe_logged_def cbpe_calibrated_def
          cbpe_new_rows_def Let_def split: sum.splits)
  next
    case False
    then show ?thesis
      using assms(1) lm gc
      by (simp add: cbpe_estimate_def get_set_column cbpe_logged_def cbpe_calibrated_def
          cbpe_new_rows_def Let_def split: sum.splits)
  qed
qed

lemma cbpe_estimate_empty:
  "df_empty df \<Longrightarrow> cbpe_estimate env self df = (Inl (InvalidArgumentsException NoRows), self, df)"
  by (simp add: cbpe_estimate_def)

lemma cbpe_estimate_missing:
  assumes "\<not> df_empty df" and "\<not> set [y_pred_proba self, y_pred self] \<subseteq> set (df_columns df)"
  shows "cbpe_estimate env self df =
     (Inl (InvalidArgumentsException
        (MissingColumns (filter (\<lambda>col. col \<notin> set (df_columns df)) [y_pred_proba self, y_pred self])
           (df_columns df))), self, df)"
  using assms(1) list_missing_fail[OF assms(2)] by (simp add: cbpe_estimate_def)

section \<open>Rows of the result table\<close>

lemma cbpe_loop_keys:
  assumes "cbpe_estimate_chunk_loop self c ms acc = Inr d"
  shows "fst ` set d \<subseteq> fst ` set acc \<union> (\<Union>m \<in> set ms. set (metric_keys (column_name m)))"
proof
  fix k assume k: "k \<in> fst ` set d"
  show "k \<in> fst ` set acc \<union> (\<Union>m \<in> set ms. set (metric_keys (column_name m)))"
  proof (cases "\<forall>m \<in> set ms. k \<notin> set (metric_keys (column_name m))")
    case True
    from cbpe_loop_other[OF assms True] have "map_of d k = map_of acc k" .
    with k have "k \<in> fst ` set acc" by (metis map_of_eq_None_iff)
    then show ?thesis by simp
  next
    case False
    then show ?thesis by auto
  qed
qed

lemma dle_loop_keys:
  "fst ` set (dle_estimate_chunk_loop c ms acc) \<subseteq>
     fst ` set acc \<union> (\<Union>m \<in> set ms. set (metric_keys (column_name m)))"
proof
  fix k assume k: "k \<in> fst ` set (dle_estimate_chunk_loop c ms acc)"
  show "k \<in> fst ` set acc \<union> (\<Union>m \<in> set ms. set (metric_keys (column_name m)))"
  proof (cases "\<forall>m \<in> set ms. k \<notin> set (metric_keys (column_name m))")
    case True
    from dle_loop_other[OF True] have "map_of (dle_estimate_chunk_loop c ms acc) k = map_of acc k" .
    with k have "k \<in> fst ` set acc" by (metis map_of_eq_None_iff)
    then show ?thesis by simp
  next
    case False
    then show ?thesis by auto
  qed
qed

lemma metric_keys_not_chunk_keys: "k \<in> set (metric_keys n) \<Longrightarrow> k \<notin> set chunk_keys"
  by (auto simp: metric_keys_def chunk_keys_def)

lemma update_take:
  "k \<notin> fst ` set (take n al) \<Longrightarrow> n \<le> length al \<Longrightarrow> take n (AList.update k v al) = take n al"
proof (induction al arbitrary: n)
  case Nil
  then show ?case by simp
next
  case (Cons p al)
  then show ?case by (cases n) auto
qed

lemma length_update_ge: "length al \<le> length (AList.update k v al)"
  by (induction al) auto

lemma fold_update_take:
  "\<forall>k \<in> fst ` set es. k \<notin> fst ` set (take n al) \<Longrightarrow> n \<le> length al \<Longrightarrow>
   take n (fold (\<lambda>(k, v). AList.update k v) es al) = take n al \<and>
   n \<le> length (fold (\<lambda>(k, v). AList.update k v) es al)"
proof (induction es arbitrary: al)
  case Nil
  then show ?case by simp
next
  case (Cons e es)
  obtain k v where e: "e = (k, v)" by (cases e)
  from Cons.prems e have t: "take n (AList.update k v al) = take n al"
    by (intro update_take) auto
  have l: "n \<le> length (AList.update k v al)"
    using Cons.prems(2) length_update_ge[of al k v] by simp
  from Cons.prems(1) t have "\<forall>k' \<in> fst ` set es. k' \<notin> fst ` set (take n (AList.update k v al))"
    by simp
  from Cons.IH[OF this l] t e show ?case by simp
qed

lemma chunk_record_take:
  assumes "\<forall>k \<in> fst ` set est. k \<notin> set chunk_keys"
  shows "take 7 (chunk_record c est) =
           [(''key'', PStr (key c)), (''chunk_index'', PInt (chunk_index c)),
            (''start_index'', PInt (start_index c)), (''end_index'', PInt (end_index c)),
            (''start_date'', start_datetime c), (''end_date'', end_datetime c),
            (''period'', PStr ''analysis'')]"
  using fold_update_take[of est 7
      "[(''key'', PStr (key c)), (''chunk_index'', PInt (chunk_index c)),
        (''start_index'', PInt (start_index c)), (''end_index'', PInt (end_index c)),
        (''start_date'', start_datetime c), (''end_date'', end_datetime c),
        (''period'', PStr ''analysis'')]"] assms
  by (simp add: chunk_record_def chunk_keys_def)

lemma row_period:
  assumes "take 7 r = [a1, a2, a3, a4, a5, a6, (k, p)]"
  shows "period_of (zip (create_multilevel_index ns) (map snd r)) = Some p"
proof -
  have "r = take 7 r @ drop 7 r" by simp
  then obtain rest where "r = [a1, a2, a3, a4, a5, a6, (k, p)] @ rest"
    using assms by metis
  then show ?thesis
    by (simp add: period_of_def create_multilevel_index_def chunk_column_names_def)
qed

lemma cbpe_records_rows:
  "cbpe_records self cs = Inr rs \<Longrightarrow>
   length rs = length cs \<and>
   (\<forall>r \<in> set rs. \<exists>c est. cbpe_estimate_chunk self c = Inr est \<and> r = chunk_record c est)"
proof (induction cs arbitrary: rs)
  case Nil
  then show ?case by simp
next
  case (Cons c cs)
  then show ?case by (fastforce split: sum.splits)
qed

lemma relabel_rows:
  "relabel idx records = Inr res \<Longrightarrow> res = map (\<lambda>r. zip idx (map snd r)) records"
  by (simp add: relabel_def Let_def split: if_splits)

lemma cbpe_chunk_record_period:
  assumes "cbpe_estimate_chunk self c = Inr est"
  shows "period_of (zip (create_multilevel_index ns) (map snd (chunk_record c est))) =
           Some (PStr ''analysis'')"
proof -
  have "\<forall>k \<in> fst ` set est. k \<notin> set chunk_keys"
  proof
    fix k assume "k \<in> fst ` set est"
    with cbpe_loop_keys[OF assms[unfolded cbpe_estimate_chunk_def]]
    have "k \<in> (\<Union>m \<in> set (metrics self). set (metric_keys (column_name m)))" by auto
    then obtain m :: metric where "k \<in> set (metric_keys (column_name m))" by blast
    then show "k \<notin> set chunk_keys" by (rule metric_keys_not_chunk_keys)
  qed
  from row_period[OF chunk_record_take[OF this]] show ?thesis .
qed

lemma dle_chunk_record_period:
  "period_of (zip (create_multilevel_index ns)
      (map snd (chunk_record c (dle_estimate_chunk ms c)))) = Some (PStr ''analysis'')"
proof -
  have "\<forall>k \<in> fst ` set (dle_estimate_chunk ms c). k \<notin> set chunk_keys"
  proof
    fix k assume "k \<in> fst ` set (dle_estimate_chunk ms c)"
    with dle_loop_keys[of c ms "[]"]
    have "k \<in> (\<Union>m \<in> set ms. set (metric_keys (column_name m)))"
      by (auto simp: dle_estimate_chunk_def)
    then obtain m :: dle_metric where "k \<in> set (metric_keys (column_name m))" by blast
    then show "k \<notin> set chunk_keys" by (rule metric_keys_not_chunk_keys)
  qed
  from row_period[OF chunk_record_take[OF this]] show ?thesis .
qed

lemma cbpe_new_rows_facts:
  assumes "cbpe_new_rows self df = Inr res"
  shows "length res = length (chunker self df)"
    and "\<forall>r \<in> set res. period_of r = Some (PStr ''analysis'')"
proof -
  from assms obtain records where
    recs: "cbpe_records self (chunker self df) = Inr records" and
    rel: "relabel (create_multilevel_index (map column_name (metrics self))) records = Inr res"
    by (auto simp: cbpe_new_rows_def split: sum.splits)
  from relabel_rows[OF rel] cbpe_records_rows[OF recs]
  show "length res = length (chunker self df)" by simp
  show "\<forall>r \<in> set res. period_of r = Some (PStr ''analysis'')"
  proof
    fix r assume "r \<in> set res"
    with relabel_rows[OF rel] obtain rc where rc: "rc \<in> set records"
      and r: "r = zip (create_multilevel_index (map column_name (metrics self))) (map snd rc)"
      by auto
    from cbpe_records_rows[OF recs] rc obtain c est where
      "cbpe_estimate_chunk self c = Inr est" "rc = chunk_record c est" by blast
    with cbpe_chunk_record_period r show "period_of r = Some (PStr ''analysis'')" by simp
  qed
qed

lemma set_period_reference_facts:
  "length (set_period_reference t) = length t"
  "\<forall>r \<in> set (set_period_reference t). period_of r = Some (PStr ''reference'')"
  by (auto simp: set_period_reference_def period_of_def update_conv')

section \<open>Outcomes of the classification estimate\<close>

lemma cbpe_estimate_cases:
  obtains (rejected) x where
      "cbpe_estimate env self df = (Inl (InvalidArgumentsException x), self, df)"
      "df_empty df \<or> \<not> set [y_pred_proba self, y_pred self] \<subseteq> set (df_columns df)"
  | (valid) scores where
      "\<not> df_empty df" "set [y_pred_proba self, y_pred self] \<subseteq> set (df_columns df)"
      "map_of (cols df) (y_pred_proba self) = Some scores"
      "cbpe_estimate env self df =
         (case cbpe_new_rows (cbpe_logged self scores) (cbpe_calibrated env self df scores) of
            Inl e \<Rightarrow> (Inl e, cbpe_logged self scores, cbpe_calibrated env self df scores)
          | Inr res \<Rightarrow>
              (Inr (accumulate (result self) res),
               (cbpe_logged self scores)\<lparr>result := Some (accumulate (result self) res)\<rparr>,
               cbpe_calibrated env self df scores))"
proof (cases "df_empty df")
  case True
  with cbpe_estimate_empty[OF True] rejected show ?thesis by blast
next
  case False
  show ?thesis
  proof (cases "set [y_pred_proba self, y_pred self] \<subseteq> set (df_columns df)")
    case True
    then have m: "y_pred_proba self \<in> set (df_columns df)" "y_pred self \<in> set (df_columns df)"
      by simp_all
    from get_column_present[OF m(1)] obtain scores where
      s: "map_of (cols df) (y_pred_proba self) = Some scores" by blast
    from cbpe_estimate_valid[OF False m s] valid[OF False True s] show ?thesis by blast
  next
    case nsub: False
    from cbpe_estimate_missing[OF False nsub] rejected nsub show ?thesis by blast
  qed
qed

lemma cbpe_estimate_success:
  assumes "cbpe_estimate env self df = (Inr t, s', df')"
  obtains scores rows where
    "\<not> df_empty df" "set [y_pred_proba self, y_pred self] \<subseteq> set (df_columns df)"
    "map_of (cols df) (y_pred_proba self) = Some scores"
    "df' = cbpe_calibrated env self df scores"
    "s' = (cbpe_logged self scores)\<lparr>result := Some t\<rparr>"
    "cbpe_new_rows (cbpe_logged self scores) df' = Inr rows"
    "t = accumulate (result self) rows"
proof (cases rule: cbpe_estimate_cases[of env self df])
  case (rejected x)
  with assms show ?thesis by simp
next
  case (valid scores)
  show ?thesis
  proof (cases "cbpe_new_rows (cbpe_logged self scores) (cbpe_calibrated env self df scores)")
    case (Inl e)
    with valid(4) assms show ?thesis by simp
  next
    case (Inr rows)
    with valid(4) assms have
      "t = accumulate (result self) rows"
      "s' = (cbpe_logged self scores)\<lparr>result := Some t\<rparr>"
      "df' = cbpe_calibrated env self df scores" by simp_all
    with that[OF valid(1-3)] Inr show ?thesis by simp
  qed
qed

lemma cbpe_logged_fields [simp]:
  "metrics (cbpe_logged self scores) = metrics self"
  "chunker (cbpe_logged self scores) = chunker self"
  "result (cbpe_logged self scores) = result self"
  "y_pred (cbpe_logged self scores) = y_pred self"
  "y_true (cbpe_logged self scores) = y_true self"
  "y_pred_proba (cbpe_logged self scores) = y_pred_proba self"
  "calibrator (cbpe_logged self scores) = calibrator self"
  "needs_calibration (cbpe_logged self scores) = needs_calibration self"
  "confidence_upper_bound (cbpe_logged self scores) = confidence_upper_bound self"
  "confidence_lower_bound (cbpe_logged self scores) = confidence_lower_bound self"
  "calls (cbpe_logged self scores) =
     calls self @ (if needs_calibration self then [Calibrate scores] else [])"
  by (simp_all add: cbpe_logged_def)

lemma cbpe_estimate_frame:
  assumes "cbpe_estimate env self df = (r, s', df')"
  shows "metrics s' = metrics self" "chunker s' = chunker self"
    "y_pred s' = y_pred self" "y_true s' = y_true self" "y_pred_proba s' = y_pred_proba self"
    "calibrator s' = calibrator self" "needs_calibration s' = needs_calibration self"
    "confidence_upper_bound s' = confidence_upper_bound self"
    "confidence_lower_bound s' = confidence_lower_bound self"
proof -
  have "\<exists>scores res. s' = self \<or> s' = cbpe_logged self scores
          \<or> s' = (cbpe_logged self scores)\<lparr>result := res\<rparr>"
  proof (cases rule: cbpe_estimate_cases[of env self df])
    case (rejected x)
    with assms show ?thesis by simp
  next
    case (valid scores)
    with assms show ?thesis by (auto split: sum.splits)
  qed
  then obtain scores res where
    d: "s' = self \<or> s' = cbpe_logged self scores \<or> s' = (cbpe_logged self scores)\<lparr>result := res\<rparr>"
    by blast
  from d show "metrics s' = metrics self" by auto
  from d show "chunker s' = chunker self" by auto
  from d show "y_pred s' = y_pred self" by auto
  from d show "y_true s' = y_true self" by auto
  from d show "y_pred_proba s' = y_pred_proba self" by auto
  from d show "calibrator s' = calibrator self" by auto
  from d show "needs_calibration s' = needs_calibration self" by auto
  from d show "confidence_upper_bound s' = confidence_upper_bound self" by auto
  from d show "confidence_lower_bound s' = confidence_lower_bound self" by auto
qed

section \<open>Outcomes of the classification fit\<close>

lemma cbpe_fit_empty:
  "df_empty df \<Longrightarrow> cbpe_fit env self df = (Inl (InvalidArgumentsException NoRows), self, df)"
  by (simp add: cbpe_fit_def)

lemma cbpe_fit_missing:
  assumes "\<not> df_empty df"
    and "\<not> set [y_true self, y_pred_proba self, y_pred self] \<subseteq> set (df_columns df)"
  shows "cbpe_fit env self df =
     (Inl (InvalidArgumentsException
        (MissingColumns
           (filter (\<lambda>col. col \<notin> set (df_columns df)) [y_true self, y_pred_proba self, y_pred self])
           (df_columns df))), self, df)"
  using assms(1) list_missing_fail[OF assms(2)] by (simp add: cbpe_fit_def)

lemma cbpe_fit_valid:
  assumes "\<not> df_empty df"
    and "set [y_true self, y_pred_proba self, y_pred self] \<subseteq> set (df_columns df)"
    and "map_of (cols df) (y_pred_proba self) = Some scores"
    and "get_column (set_column df (''uncalibrated_'' @ y_pred_proba self) scores) (y_true self)
           = Inr labels"
  shows "cbpe_fit env self df =
     (case cbpe_estimate env
             (cbpe_fitted env self (set_column df (''uncalibrated_'' @ y_pred_proba self) scores)
                labels scores)
             (set_column df (''uncalibrated_'' @ y_pred_proba self) scores) of
        (Inl e, s4, d2) \<Rightarrow> (Inl e, s4, d2)
      | (Inr t, s4, d2) \<Rightarrow> (Inr (), s4\<lparr>result := Some (set_period_reference t)\<rparr>, d2))"
proof -
  have lm: "list_missing [y_true self, y_pred_proba self, y_pred self] (df_columns df) = Inr ()"
    using assms(2) by (intro list_missing_ok)
  have gc: "get_column df (y_pred_proba self) = Inr scores"
    using assms(3) by (simp add: get_column_def)
  have gc1: "get_column (set_column df (''uncalibrated_'' @ y_pred_proba self) scores)
               (y_pred_proba self) = Inr scores"
    using gc by (simp add: get_set_column)
  show ?thesis
    using assms(1) lm gc gc1 assms(4)
    by (simp add: cbpe_fit_def cbpe_fitted_def Let_def)
qed

lemma cbpe_fitted_fields [simp]:
  "chunker (cbpe_fitted env self df1 labels scores) = chunker self"
  "result (cbpe_fitted env self df1 labels scores) = result self"
  "y_pred (cbpe_fitted env self df1 labels scores) = y_pred self"
  "y_true (cbpe_fitted env self df1 labels scores) = y_true self"
  "y_pred_proba (cbpe_fitted env self df1 labels scores) = y_pred_proba self"
  "confidence_upper_bound (cbpe_fitted env self df1 labels scores) = confidence_upper_bound self"
  "confidence_lower_bound (cbpe_fitted env self df1 labels scores) = confidence_lower_bound self"
  "needs_calibration (cbpe_fitted env self df1 labels scores) =
     needs_calibration_fn env labels scores (calibrator self)"
  "calls (cbpe_fitted env self df1 labels scores) =
     calls self @ NeedsCalibration #
       (if needs_calibration_fn env labels scores (calibrator self) then [CalibratorFit] else [])"
  by (simp_all add: cbpe_fitted_def Let_def)

lemma set_column_fields [simp]:
  "nrows (set_column df n c) = nrows df"
  "cols (set_column df n c) = AList.update n c (cols df)"
  "df_columns (set_column df n c) = (if n \<in> set (df_columns df) then df_columns df else df_columns df @ [n])"
  "df_empty (set_column df n c) = (nrows df = 0)"
  by (simp_all add: set_column_def df_columns_def df_empty_def update_keys)

lemma cbpe_fit_cases:
  obtains (rejected) x where
      "cbpe_fit env self df = (Inl (InvalidArgumentsException x), self, df)"
      "df_empty df \<or> \<not> set [y_true self, y_pred_proba self, y_pred self] \<subseteq> set (df_columns df)"
  | (valid) scores labels where
      "\<not> df_empty df"
      "set [y_true self, y_pred_proba self, y_pred self] \<subseteq> set (df_columns df)"
      "map_of (cols df) (y_pred_proba self) = Some scores"
      "get_column (set_column df (''uncalibrated_'' @ y_pred_proba self) scores) (y_true self)
           = Inr labels"
      "cbpe_fit env self df =
        (case cbpe_estimate env
             (cbpe_fitted env self (set_column df (''uncalibrated_'' @ y_pred_proba self) scores)
                labels scores)
             (set_column df (''uncalibrated_'' @ y_pred_proba self) scores) of
          (Inl e, s4, d2) \<Rightarrow> (Inl e, s4, d2)
        | (Inr t, s4, d2) \<Rightarrow> (Inr (), s4\<lparr>result := Some (set_period_reference t)\<rparr>, d2))"
proof (cases "df_empty df")
  case True
  with cbpe_fit_empty[OF True] rejected show ?thesis by blast
next
  case False
  show ?thesis
  proof (cases "set [y_true self, y_pred_proba self, y_pred self] \<subseteq> set (df_columns df)")
    case True
    then have m: "y_pred_proba self \<in> set (df_columns df)" "y_true self \<in> set (df_columns df)"
      by simp_all
    from get_column_present[OF m(1)] obtain scores where
      s: "map_of (cols df) (y_pred_proba self) = Some scores" by blast
    have "y_true self \<in> set (df_columns
            (set_column df (''uncalibrated_'' @ y_pred_proba self) scores))"
      using m(2) by simp
    from get_column_present[OF this] obtain labels where
      l: "get_column (set_column df (''uncalibrated_'' @ y_pred_proba self) scores) (y_true self)
           = Inr labels" by blast
    from cbpe_fit_valid[OF False True s l] valid[OF False True s l] show ?thesis by blast
  next
    case nsub: False
    from cbpe_fit_missing[OF False nsub] rejected nsub show ?thesis by blast
  qed
qed

lemma cbpe_fit_frame:
  assumes "cbpe_fit env self df = (r, s', df')"
  shows "chunker s' = chunker self"
    "y_pred s' = y_pred self" "y_true s' = y_true self" "y_pred_proba s' = y_pred_proba self"
    "confidence_upper_bound s' = confidence_upper_bound self"
    "confidence_lower_bound s' = confidence_lower_bound self"
proof -
  have "s' = self \<or> (\<exists>df1 labels scores t s4 d2 res.
          cbpe_estimate env (cbpe_fitted env self df1 labels scores) df1 = (t, s4, d2) \<and>
          (s' = s4 \<or> s' = s4\<lparr>result := res\<rparr>))"
  proof (cases rule: cbpe_fit_cases[of env self df])
    case (rejected x)
    with assms show ?thesis by simp
  next
    case (valid scores labels)
    obtain t s4 d2 where e: "cbpe_estimate env
             (cbpe_fitted env self (set_column df (''uncalibrated_'' @ y_pred_proba self) scores)
                labels scores)
             (set_column df (''uncalibrated_'' @ y_pred_proba self) scores) = (t, s4, d2)"
      by (metis prod_cases3)
    from valid(5) assms e have "s' = s4 \<or> s' = s4\<lparr>result := Some (set_period_reference (projr t))\<rparr>"
      by (cases t) auto
    with e show ?thesis by blast
  qed
  then consider "s' = self"
    | df1 labels scores t s4 d2 res where
        "cbpe_estimate env (cbpe_fitted env self df1 labels scores) df1 = (t, s4, d2)"
        "s' = s4 \<or> s' = s4\<lparr>result := res\<rparr>"
    by blast
  then have "chunker s' = chunker self \<and>
    y_pred s' = y_pred self \<and> y_true s' = y_true self \<and> y_pred_proba s' = y_pred_proba self \<and>
    confidence_upper_bound s' = confidence_upper_bound self \<and>
    confidence_lower_bound s' = confidence_lower_bound self"
  proof cases
    case 1
    then show ?thesis by simp
  next
    case 2
    from cbpe_estimate_frame[OF 2(1)] 2(2) show ?thesis by auto
  qed
  then show "chunker s' = chunker self"
    "y_pred s' = y_pred self" "y_true s' = y_true self" "y_pred_proba s' = y_pred_proba self"
    "confidence_upper_bound s' = confidence_upper_bound self"
    "confidence_lower_bound s' = confidence_lower_bound self" by simp_all
qed

lemma cbpe_reachable_bounds:
  "cbpe_reachable env s \<Longrightarrow> confidence_upper_bound s = 1 \<and> confidence_lower_bound s = 0"
proof (induction rule: cbpe_reachable.induct)
  case (reach_init ms yp ypp yt ch cal nc s)
  then show ?case by (auto simp: cbpe_init_def split: model_outputs.splits)
next
  case (reach_fit s df r s' df')
  with cbpe_fit_frame[OF reach_fit(2)] show ?case by simp
next
  case (reach_estimate s df t s' df')
  with cbpe_estimate_frame[OF reach_estimate(2)] show ?case by simp
qed

section \<open>Alerts and the classification band\<close>

lemma cbpe0_init:
  "cbpe_init [roc_auc0] ''y_pred'' (Single ''y_pred_proba'') ''y_true''
     (\<lambda>df. [chunk0\<lparr>data := df\<rparr>]) () False = Inr cbpe0"
  by (simp add: cbpe_init_def cbpe0_def)

lemma cbpe0_reachable: "cbpe_reachable env cbpe0"
  using cbpe0_init by (rule reach_init)

lemma cbpe_alert_iff:
  assumes "distinct (map column_name (metrics self))" and "m \<in> set (metrics self)"
    and "cbpe_estimate_chunk self c = Inr d"
  shows "map_of d (''alert_'' @ column_name m) =
           Some (PBool ((\<exists>u. upper_threshold m = Some u \<and> estimate m (data c) > u) \<or>
                        (\<exists>l. lower_threshold m = Some l \<and> estimate m (data c) < l)))"
  using cbpe_loop_entries[OF assms(1,2) assms(3)[unfolded cbpe_estimate_chunk_def]]
  by (simp add: cbpe_entries_def)

lemma dle_alert_iff:
  assumes "distinct (map column_name ms)" and "m \<in> set ms"
  shows "map_of (dle_estimate_chunk ms c) (''alert_'' @ column_name m) =
           Some (PBool ((\<exists>u. upper_threshold m = Some u \<and> u \<noteq> 0 \<and> estimate m (data c) > u) \<or>
                        (\<exists>l. lower_threshold m = Some l \<and> l \<noteq> 0 \<and> estimate m (data c) < l)))"
  using dle_loop_entries[OF assms, of c "[]"]
  by (simp add: dle_estimate_chunk_def dle_entries_def)

text \<open>
  Claim C2. In every state that a classification estimator reaches from its constructor,
  for every chunk and every metric (distinct column names), the dictionary of
  \<^verbatim>\<open>_estimate_chunk\<close> holds as upper confidence boundary the minimum of 1 and the estimate
  plus three sampling errors, and as lower confidence boundary the maximum of 0 and the
  estimate minus three sampling errors; the two bounds of the estimator are 1 and 0.
\<close>

theorem cbpe_confidence_band:
  assumes "cbpe_reachable env self"
    and "distinct (map column_name (metrics self))" and "m \<in> set (metrics self)"
    and "cbpe_estimate_chunk self c = Inr d"
  shows "confidence_upper_bound self = 1 \<and> confidence_lower_bound self = 0
       \<and> map_of d (''upper_confidence_'' @ column_name m) =
           Some (PFloat (min 1 (estimate m (data c) + 3 * sampling_error m (data c))))
       \<and> map_of d (''lower_confidence_'' @ column_name m) =
           Some (PFloat (max 0 (estimate m (data c) - 3 * sampling_error m (data c))))"
  using cbpe_loop_entries[OF assms(2,3) assms(4)[unfolded cbpe_estimate_chunk_def]]
    cbpe_reachable_bounds[OF assms(1)]
  by (simp add: cbpe_entries_def SAMPLING_ERROR_RANGE_def)

lemma cbpe0_chunk:
  "cbpe_estimate_chunk cbpe0 chunk0 =
     Inr [(''sampling_error_roc_auc'', PFloat 0.01), (''realized_roc_auc'', PFloat 0.9),
          (''estimated_roc_auc'', PFloat 0.95), (''upper_confidence_roc_auc'', PFloat 0.98),
          (''lower_confidence_roc_auc'', PFloat 0.92), (''upper_threshold_roc_auc'', PFloat 0.9),
          (''lower_threshold_roc_auc'', PFloat 0.7), (''alert_roc_auc'', PBool True)]"
  by (simp add: cbpe_estimate_chunk_def cbpe0_def roc_auc0_def Let_def of_optional_def
      SAMPLING_ERROR_RANGE_def)

text \<open>The band of the sample metric \<open>roc_auc0\<close> in the state built by the constructor.\<close>

theorem cbpe_confidence_band_witness:
  "confidence_upper_bound cbpe0 = 1 \<and> confidence_lower_bound cbpe0 = 0
   \<and> map_of (projr (cbpe_estimate_chunk cbpe0 chunk0)) ''upper_confidence_roc_auc''
       = Some (PFloat 0.98)
   \<and> map_of (projr (cbpe_estimate_chunk cbpe0 chunk0)) ''lower_confidence_roc_auc''
       = Some (PFloat 0.92)"
proof -
  have m: "roc_auc0 \<in> set (metrics cbpe0)" "distinct (map column_name (metrics cbpe0))"
    by (simp_all add: cbpe0_def)
  have c: "cbpe_estimate_chunk cbpe0 chunk0 = Inr (projr (cbpe_estimate_chunk cbpe0 chunk0))"
    by (simp add: cbpe0_chunk)
  from cbpe_confidence_band[OF cbpe0_reachable m(2) m(1) c]
  show ?thesis by (simp add: roc_auc0_def)
qed

section \<open>Ordering of the confidence boundaries\<close>

text \<open>
  Claim C4, as stated: with a non-negative sampling error, the lower confidence boundary
  of the regression strategy is at most the estimate. The sample metric \<open>mse0\<close> has
  sampling error 0, lower value limit 0 and estimate -1: its lower boundary is 0.
\<close>

theorem dle_confidence_order_counterexample:
  "0 \<le> sampling_error mse0 (data chunk0)
   \<and> map_of (dle_estimate_chunk [mse0] chunk0) ''lower_confidence_mse'' = Some (PFloat 0)
   \<and> map_of (dle_estimate_chunk [mse0] chunk0) ''estimated_mse'' = Some (PFloat (- 1))
   \<and> \<not> (0::real) \<le> - 1"
  by (simp add: dle_estimate_chunk_def mse0_def Let_def update_conv')

text \<open>
  Claim C4, amended. With a non-negative sampling error: in every reachable state of the
  classification strategy, when the estimate lies in [0, 1], the row of a metric has lower
  boundary \<open>\<le>\<close> estimate \<open>\<le>\<close> upper boundary and both boundaries lie in [0, 1]; in the
  regression strategy, when the estimate lies within the value limits that are defined,
  the row of a metric has lower boundary \<open>\<le>\<close> estimate \<open>\<le>\<close> upper boundary.
\<close>

theorem confidence_ordering:
  "(cbpe_reachable env self \<longrightarrow> distinct (map column_name (metrics self)) \<longrightarrow>
    m \<in> set (metrics self) \<longrightarrow> cbpe_estimate_chunk self c = Inr d \<longrightarrow>
    0 \<le> sampling_error m (data c) \<longrightarrow> 0 \<le> estimate m (data c) \<longrightarrow> estimate m (data c) \<le> 1 \<longrightarrow>
    (\<exists>lo up. map_of d (''lower_confidence_'' @ column_name m) = Some (PFloat lo) \<and>
             map_of d (''upper_confidence_'' @ column_name m) = Some (PFloat up) \<and>
             map_of d (''estimated_'' @ column_name m) = Some (PFloat (estimate m (data c))) \<and>
             lo \<le> estimate m (data c) \<and> estimate m (data c) \<le> up \<and> 0 \<le> lo \<and> up \<le> 1))
   \<and> (distinct (map column_name ms) \<longrightarrow> md \<in> set ms \<longrightarrow>
    0 \<le> sampling_error md (data c) \<longrightarrow>
    (\<forall>v. lower_value_limit md = Some v \<longrightarrow> v \<le> estimate md (data c)) \<longrightarrow>
    (\<forall>v. upper_value_limit md = Some v \<longrightarrow> estimate md (data c) \<le> v) \<longrightarrow>
    (\<exists>lo up. map_of (dle_estimate_chunk ms c) (''lower_confidence_'' @ column_name md)
               = Some (PFloat lo) \<and>
             map_of (dle_estimate_chunk ms c) (''upper_confidence_'' @ column_name md)
               = Some (PFloat up) \<and>
             map_of (dle_estimate_chunk ms c) (''estimated_'' @ column_name md)
               = Some (PFloat (estimate md (data c))) \<and>
             lo \<le> estimate md (data c) \<and> estimate md (data c) \<le> up))"
proof (intro conjI impI)
  assume r: "cbpe_reachable env self" and dist: "distinct (map column_name (metrics self))"
    and m: "m \<in> set (metrics self)" and ch: "cbpe_estimate_chunk self c = Inr d"
    and se: "0 \<le> sampling_error m (data c)"
    and e0: "0 \<le> estimate m (data c)" and e1: "estimate m (data c) \<le> 1"
  from cbpe_loop_entries[OF dist m ch[unfolded cbpe_estimate_chunk_def]]
    cbpe_reachable_bounds[OF r]
  have lo: "map_of d (''lower_confidence_'' @ column_name m) =
              Some (PFloat (max 0 (estimate m (data c) - 3 * sampling_error m (data c))))"
    and up: "map_of d (''upper_confidence_'' @ column_name m) =
              Some (PFloat (min 1 (estimate m (data c) + 3 * sampling_error m (data c))))"
    and es: "map_of d (''estimated_'' @ column_name m) = Some (PFloat (estimate m (data c)))"
    by (simp_all add: cbpe_entries_def SAMPLING_ERROR_RANGE_def)
  have "max 0 (estimate m (data c) - 3 * sampling_error m (data c)) \<le> estimate m (data c)"
    "estimate m (data c) \<le> min 1 (estimate m (data c) + 3 * sampling_error m (data c))"
    "0 \<le> max 0 (estimate m (data c) - 3 * sampling_error m (data c))"
    "min 1 (estimate m (data c) + 3 * sampling_error m (data c)) \<le> 1"
    using se e0 e1 by simp_all
  with lo up es show "\<exists>lo up. map_of d (''lower_confidence_'' @ column_name m) = Some (PFloat lo) \<and>
             map_of d (''upper_confidence_'' @ column_name m) = Some (PFloat up) \<and>
             map_of d (''estimated_'' @ column_name m) = Some (PFloat (estimate m (data c))) \<and>
             lo \<le> estimate m (data c) \<and> estimate m (data c) \<le> up \<and> 0 \<le> lo \<and> up \<le> 1"
    by blast
next
  assume dist: "distinct (map column_name ms)" and m: "md \<in> set ms"
    and se: "0 \<le> sampling_error md (data c)"
    and ll: "\<forall>v. lower_value_limit md = Some v \<longrightarrow> v \<le> estimate md (data c)"
    and ul: "\<forall>v. upper_value_limit md = Some v \<longrightarrow> estimate md (data c) \<le> v"
  let ?lo = "case lower_value_limit md of
               None \<Rightarrow> estimate md (data c) - 3 * sampling_error md (data c)
             | Some v \<Rightarrow> max v (estimate md (data c) - 3 * sampling_error md (data c))"
  let ?up = "case upper_value_limit md of
               None \<Rightarrow> estimate md (data c) + 3 * sampling_error md (data c)
             | Some v \<Rightarrow> min v (estimate md (data c) + 3 * sampling_error md (data c))"
  from dle_loop_entries[OF dist m, of c "[]"]
  have lo: "map_of (dle_estimate_chunk ms c) (''lower_confidence_'' @ column_name md)
              = Some (PFloat ?lo)"
    and up: "map_of (dle_estimate_chunk ms c) (''upper_confidence_'' @ column_name md)
              = Some (PFloat ?up)"
    and es: "map_of (dle_estimate_chunk ms c) (''estimated_'' @ column_name md)
              = Some (PFloat (estimate md (data c)))"
    by (simp_all add: dle_estimate_chunk_def dle_entries_def)
  have "?lo \<le> estimate md (data c)" using se ll by (cases "lower_value_limit md") simp_all
  moreover have "estimate md (data c) \<le> ?up"
    using se ul by (cases "upper_value_limit md") simp_all
  ultimately show "\<exists>lo up. map_of (dle_estimate_chunk ms c) (''lower_confidence_'' @ column_name md)
               = Some (PFloat lo) \<and>
             map_of (dle_estimate_chunk ms c) (''upper_confidence_'' @ column_name md)
               = Some (PFloat up) \<and>
             map_of (dle_estimate_chunk ms c) (''estimated_'' @ column_name md)
               = Some (PFloat (estimate md (data c))) \<and>
             lo \<le> estimate md (data c) \<and> estimate md (data c) \<le> up"
    using lo up es by blast
qed

text \<open>The ordering for \<open>roc_auc0\<close> (estimate 0.95) and for \<open>mae0\<close> (estimate 1, lower
  value limit 0).\<close>

theorem confidence_ordering_witness:
  "(\<exists>lo up. map_of (projr (cbpe_estimate_chunk cbpe0 chunk0)) ''lower_confidence_roc_auc''
               = Some (PFloat lo) \<and>
            map_of (projr (cbpe_estimate_chunk cbpe0 chunk0)) ''upper_confidence_roc_auc''
               = Some (PFloat up) \<and>
            map_of (projr (cbpe_estimate_chunk cbpe0 chunk0)) ''estimated_roc_auc''
               = Some (PFloat 0.95) \<and>
            lo \<le> 0.95 \<and> 0.95 \<le> up \<and> 0 \<le> lo \<and> up \<le> 1)
   \<and> (\<exists>lo up. map_of (dle_estimate_chunk [mae0, mse0] chunk0) ''lower_confidence_mae''
               = Some (PFloat lo) \<and>
            map_of (dle_estimate_chunk [mae0, mse0] chunk0) ''upper_confidence_mae''
               = Some (PFloat up) \<and>
            map_of (dle_estimate_chunk [mae0, mse0] chunk0) ''estimated_mae'' = Some (PFloat 1) \<and>
            lo \<le> 1 \<and> 1 \<le> up)"
proof -
  have m: "roc_auc0 \<in> set (metrics cbpe0)" "distinct (map column_name (metrics cbpe0))"
    by (simp_all add: cbpe0_def)
  have c: "cbpe_estimate_chunk cbpe0 chunk0 = Inr (projr (cbpe_estimate_chunk cbpe0 chunk0))"
    by (simp add: cbpe0_chunk)
  have h1: "0 \<le> sampling_error roc_auc0 (data chunk0)" "0 \<le> estimate roc_auc0 (data chunk0)"
    "estimate roc_auc0 (data chunk0) \<le> 1"
    by (simp_all add: roc_auc0_def)
  have d: "distinct (map column_name [mae0, mse0])" "mae0 \<in> set [mae0, mse0]"
    by (simp_all add: mae0_def mse0_def)
  have h2: "0 \<le> sampling_error mae0 (data chunk0)"
    "\<forall>v. lower_value_limit mae0 = Some v \<longrightarrow> v \<le> estimate mae0 (data chunk0)"
    "\<forall>v. upper_value_limit mae0 = Some v \<longrightarrow> estimate mae0 (data chunk0) \<le> v"
    by (simp_all add: mae0_def)
  from confidence_ordering[of env0 cbpe0 roc_auc0 chunk0
      "projr (cbpe_estimate_chunk cbpe0 chunk0)" "[mae0, mse0]" mae0]
    cbpe0_reachable m c h1 d h2
  show ?thesis by (simp add: roc_auc0_def mae0_def)
qed

section \<open>Outcomes of the regression estimator\<close>

lemma dle_new_rows_facts:
  assumes "dle_new_rows self df = Inr res"
  shows "length res = length (chunker self df)"
    and "\<forall>r \<in> set res. period_of r = Some (PStr ''analysis'')"
proof -
  from relabel_rows[OF assms[unfolded dle_new_rows_def]]
  have r: "res = map (\<lambda>r. zip (create_multilevel_index (map column_name (metrics self))) (map snd r))
            (map (\<lambda>chunk. chunk_record chunk (dle_estimate_chunk (metrics self) chunk))
               (chunker self df))" .
  then show "length res = length (chunker self df)" by simp
  from r show "\<forall>r \<in> set res. period_of r = Some (PStr ''analysis'')"
    by (auto simp: dle_chunk_record_period)
qed

lemma dle_transform_categorical_frame:
  assumes "dle_transform_categorical env self df cats = (r, s1, d1)"
  shows "\<exists>encs. s1 = self\<lparr>categorical_encoders := encs\<rparr>"
proof -
  have "s1 = self \<or> (\<exists>encs. s1 = self\<lparr>categorical_encoders := encs\<rparr>)"
    using assms
    by (auto simp: dle_transform_categorical_def Let_def split: sum.splits prod.splits)
  moreover have "self = self\<lparr>categorical_encoders := categorical_encoders self\<rparr>" by simp
  ultimately show ?thesis by metis
qed

lemma dle_fit_categorical_frame:
  assumes "dle_fit_categorical env self df cats = (r, s1, d1)"
  shows "\<exists>imp encs. s1 = self\<lparr>categorical_imputer := imp, categorical_encoders := encs\<rparr>"
proof -
  have "s1 = self \<or> (\<exists>imp. s1 = self\<lparr>categorical_imputer := imp\<rparr>)
        \<or> (\<exists>imp encs. s1 = self\<lparr>categorical_imputer := imp, categorical_encoders := encs\<rparr>)"
    using assms
    by (auto simp: dle_fit_categorical_def Let_def split: sum.splits prod.splits)
  moreover have "self = self\<lparr>categorical_imputer := categorical_imputer self,
                               categorical_encoders := categorical_encoders self\<rparr>" by simp
  moreover have "self\<lparr>categorical_imputer := imp\<rparr> =
      self\<lparr>categorical_imputer := imp, categorical_encoders := categorical_encoders self\<rparr>" for imp
    by simp
  ultimately show ?thesis by metis
qed

lemma dle_prepared_frame:
  assumes "dle_prepared env self df cats = (r, s1, d1)"
  shows "\<exists>encs. s1 = self\<lparr>categorical_encoders := encs\<rparr>"
proof (cases "length cats > 0")
  case True
  with assms dle_transform_categorical_frame show ?thesis
    by (simp add: dle_prepared_def) blast
next
  case False
  with assms have "s1 = self" by (simp add: dle_prepared_def)
  then have "s1 = self\<lparr>categorical_encoders := categorical_encoders self\<rparr>" by simp
  then show ?thesis by blast
qed

lemma dle_fit_prepared_frame:
  assumes "dle_fit_prepared env self df cats = (r, s1, d1)"
  shows "\<exists>imp encs. s1 = self\<lparr>categorical_imputer := imp, categorical_encoders := encs\<rparr>"
proof (cases "length cats > 0")
  case True
  with assms dle_fit_categorical_frame show ?thesis
    by (simp add: dle_fit_prepared_def) blast
next
  case False
  with assms have "s1 = self" by (simp add: dle_fit_prepared_def)
  then have "s1 = self\<lparr>categorical_imputer := categorical_imputer self,
                         categorical_encoders := categorical_encoders self\<rparr>" by simp
  then show ?thesis by blast
qed

lemma dle_estimate_empty:
  "df_empty df \<Longrightarrow> dle_estimate env self df = (Inl (InvalidArgumentsException NoRows), self, df)"
  by (simp add: dle_estimate_def)

lemma dle_estimate_missing:
  assumes "\<not> df_empty df" and "\<not> set [y_pred self] \<subseteq> set (df_columns df)"
  shows "dle_estimate env self df =
     (Inl (InvalidArgumentsException
        (MissingColumns (filter (\<lambda>col. col \<notin> set (df_columns df)) [y_pred self])
           (df_columns df))), self, df)"
  using assms(1) list_missing_fail[OF assms(2)] by (simp add: dle_estimate_def)

lemma dle_fit_empty:
  "df_empty df \<Longrightarrow> dle_fit env self df = (Inl (InvalidArgumentsException NoRows), self, df)"
  by (simp add: dle_fit_def)

lemma dle_fit_missing:
  assumes "\<not> df_empty df" and "\<not> set [y_true self, y_pred self] \<subseteq> set (df_columns df)"
  shows "dle_fit env self df =
     (Inl (InvalidArgumentsException
        (MissingColumns (filter (\<lambda>col. col \<notin> set (df_columns df)) [y_true self, y_pred self])
           (df_columns df))), self, df)"
  using assms(1) list_missing_fail[OF assms(2)] by (simp add: dle_fit_def)

lemma dle_estimate_valid:
  assumes "\<not> df_empty df" and "set [y_pred self] \<subseteq> set (df_columns df)"
  shows "dle_estimate env self df =
     (case split_features_by_type env df (feature_column_names self) of
        Inl e \<Rightarrow> (Inl e, self, df)
      | Inr (cont, cats) \<Rightarrow>
          (case dle_prepared env self df cats of
             (Inl e, s1, d1) \<Rightarrow> (Inl e, s1, d1)
           | (Inr u, s1, d1) \<Rightarrow>
               (case dle_new_rows s1 d1 of
                  Inl e \<Rightarrow> (Inl e, s1, d1)
                | Inr res \<Rightarrow>
                    (Inr (accumulate (result s1) res),
                     s1\<lparr>result := Some (accumulate (result s1) res)\<rparr>, d1))))"
  using assms(1) list_missing_ok[OF assms(2)]
  by (simp add: dle_estimate_def dle_prepared_def dle_new_rows_def Let_def
      split: sum.splits prod.splits)

lemma dle_fit_valid:
  assumes "\<not> df_empty df" and "set [y_true self, y_pred self] \<subseteq> set (df_columns df)"
  shows "dle_fit env self df =
     (case split_features_by_type env df (feature_column_names self) of
        Inl e \<Rightarrow> (Inl e, self, df)
      | Inr (cont, cats) \<Rightarrow>
          (case dle_fit_prepared env self df cats of
             (Inl e, s1, d1) \<Rightarrow> (Inl e, s1, d1)
           | (Inr u, s1, d1) \<Rightarrow>
               (case dle_estimate env
                       (s1\<lparr>metrics := map (\<lambda>metric. dle_metric_fit env metric d1) (metrics s1)\<rparr>)
                       d1 of
                  (Inl e, s3, d2) \<Rightarrow> (Inl e, s3, d2)
                | (Inr t, s3, d2) \<Rightarrow>
                    (Inr (), s3\<lparr>result := Some (set_period_reference t)\<rparr>, d2))))"
  using assms(1) list_missing_ok[OF assms(2)]
  by (simp add: dle_fit_def dle_fit_prepared_def Let_def split: sum.splits prod.splits)

section \<open>Rows added by a call\<close>

lemma cbpe_estimate_rows:
  assumes "cbpe_estimate env self df = (Inr t, s', df')"
  shows "\<exists>rows. t = accumulate (result self) rows \<and> result s' = Some t \<and>
           length rows = length (chunker self df') \<and>
           (\<forall>r \<in> set rows. period_of r = Some (PStr ''analysis''))"
proof -
  from cbpe_estimate_success[OF assms] obtain scores rows where
    s: "s' = (cbpe_logged self scores)\<lparr>result := Some t\<rparr>"
    and n: "cbpe_new_rows (cbpe_logged self scores) df' = Inr rows"
    and t: "t = accumulate (result self) rows" by metis
  from cbpe_new_rows_facts[OF n] s t show ?thesis by auto
qed

lemma cbpe_fit_rows:
  assumes "cbpe_fit env self df = (Inr u, s', df')"
  shows "\<exists>rows. result s' = Some (set_period_reference (accumulate (result self) rows)) \<and>
           length rows = length (chunker self df')"
proof (cases rule: cbpe_fit_cases[of env self df])
  case (rejected x)
  with assms show ?thesis by simp
next
  case (valid scores labels)
  let ?df1 = "set_column df (''uncalibrated_'' @ y_pred_proba self) scores"
  let ?s3 = "cbpe_fitted env self ?df1 labels scores"
  obtain r s4 d2 where e: "cbpe_estimate env ?s3 ?df1 = (r, s4, d2)" by (metis prod_cases3)
  show ?thesis
  proof (cases r)
    case (Inl err)
    with valid(5) e assms show ?thesis by simp
  next
    case (Inr t)
    with valid(5) e assms have s': "s' = s4\<lparr>result := Some (set_period_reference t)\<rparr>"
      and d: "df' = d2" by auto
    from cbpe_estimate_rows[OF e[unfolded Inr]] obtain rows where
      "t = accumulate (result ?s3) rows" "length rows = length (chunker ?s3 d2)" by blast
    with s' d show ?thesis by auto
  qed
qed

lemma dle_estimate_rows:
  assumes "dle_estimate env self df = (Inr t, s', df')"
  shows "\<exists>rows. t = accumulate (result self) rows \<and> result s' = Some t \<and>
           length rows = length (chunker self df') \<and>
           (\<forall>r \<in> set rows. period_of r = Some (PStr ''analysis'')) \<and>
           chunker s' = chunker self"
proof -
  have ne: "\<not> df_empty df" using assms dle_estimate_empty[of df env self] by auto
  have sub: "set [y_pred self] \<subseteq> set (df_columns df)"
    using assms dle_estimate_missing[OF ne, of self env] by auto
  note nf = dle_estimate_valid[OF ne sub, of env]
  from assms nf obtain cont cats where
    sp: "split_features_by_type env df (feature_column_names self) = Inr (cont, cats)"
    by (cases "split_features_by_type env df (feature_column_names self)") auto
  obtain r1 s1 d1 where p: "dle_prepared env self df cats = (r1, s1, d1)" by (metis prod_cases3)
  from dle_prepared_frame[OF p] obtain encs where s1: "s1 = self\<lparr>categorical_encoders := encs\<rparr>"
    by blast
  from assms nf sp p obtain u where r1: "r1 = Inr u" by (cases r1) auto
  from assms nf sp p r1 obtain rows where
    n: "dle_new_rows s1 d1 = Inr rows" by (cases "dle_new_rows s1 d1") auto
  from assms nf sp p r1 n have
    "t = accumulate (result s1) rows" "s' = s1\<lparr>result := Some t\<rparr>" "df' = d1" by auto
  with dle_new_rows_facts[OF n] s1 show ?thesis by auto
qed

lemma dle_fit_rows:
  assumes "dle_fit env self df = (Inr u, s', df')"
  shows "\<exists>rows. result s' = Some (set_period_reference (accumulate (result self) rows)) \<and>
           length rows = length (chunker self df')"
proof -
  have ne: "\<not> df_empty df" using assms dle_fit_empty[of df env self] by auto
  have sub: "set [y_true self, y_pred self] \<subseteq> set (df_columns df)"
    using assms dle_fit_missing[OF ne, of self env] by auto
  note nf = dle_fit_valid[OF ne sub, of env]
  from assms nf obtain cont cats where
    sp: "split_features_by_type env df (feature_column_names self) = Inr (cont, cats)"
    by (cases "split_features_by_type env df (feature_column_names self)") auto
  obtain r1 s1 d1 where p: "dle_fit_prepared env self df cats = (r1, s1, d1)"
    by (metis prod_cases3)
  from dle_fit_prepared_frame[OF p] obtain imp encs where
    s1: "s1 = self\<lparr>categorical_imputer := imp, categorical_encoders := encs\<rparr>" by blast
  from assms nf sp p obtain v where r1: "r1 = Inr v" by (cases r1) auto
  let ?s2 = "s1\<lparr>metrics := map (\<lambda>metric. dle_metric_fit env metric d1) (metrics s1)\<rparr>"
  obtain r3 s3 d2 where e: "dle_estimate env ?s2 d1 = (r3, s3, d2)" by (metis prod_cases3)
  from assms nf sp p r1 e obtain t where r3: "r3 = Inr t" by (cases r3) auto
  from assms nf sp p r1 e r3 have s': "s' = s3\<lparr>result := Some (set_period_reference t)\<rparr>"
    and d: "df' = d2" by auto
  from dle_estimate_rows[OF e[unfolded r3]] obtain rows where
    "t = accumulate (result ?s2) rows" "length rows = length (chunker ?s2 d2)" by blast
  with s' d s1 show ?thesis by auto
qed

section \<open>Rows of the sample estimator\<close>

lemma sample_chunk:
  assumes "metrics s = [roc_auc0]" "confidence_upper_bound s = 1" "confidence_lower_bound s = 0"
  shows "cbpe_estimate_chunk s c =
     Inr [(''sampling_error_roc_auc'', PFloat 0.01), (''realized_roc_auc'', PFloat 0.9),
          (''estimated_roc_auc'', PFloat 0.95), (''upper_confidence_roc_auc'', PFloat 0.98),
          (''lower_confidence_roc_auc'', PFloat 0.92), (''upper_threshold_roc_auc'', PFloat 0.9),
          (''lower_threshold_roc_auc'', PFloat 0.7), (''alert_roc_auc'', PBool True)]"
  using assms
  by (simp add: cbpe_estimate_chunk_def roc_auc0_def Let_def of_optional_def
      SAMPLING_ERROR_RANGE_def)

lemma sample_new_rows:
  assumes "metrics s = [roc_auc0]" "confidence_upper_bound s = 1" "confidence_lower_bound s = 0"
    and "chunker s = (\<lambda>df. [chunk0\<lparr>data := df\<rparr>])"
  shows "cbpe_new_rows s df = Inr [row0 ''analysis'']"
  using assms(1,4)
  by (simp add: cbpe_new_rows_def sample_chunk[OF assms(1-3)] chunk_record_def relabel_def
      create_multilevel_index_def chunk_column_names_def method_column_names_def chunk0_def
      row0_def roc_auc0_def)

section \<open>Calls on the sample estimator\<close>

lemma df0_facts:
  "\<not> df_empty df0" "df_columns df0 = [''y_pred_proba'', ''y_pred'', ''y_true'', ''fuel'']"
  "map_of (cols df0) ''y_pred_proba'' = Some [PFloat 0.9, PFloat 0.2]"
  by (simp_all add: df0_def df_empty_def df_columns_def)

lemma cbpe0_sample: "sample_like cbpe0"
  by (simp add: sample_like_def cbpe0_def)

lemma sample_like_result: "sample_like s \<Longrightarrow> sample_like (s\<lparr>result := r\<rparr>)"
  by (simp add: sample_like_def)

lemma sample_like_logged: "sample_like s \<Longrightarrow> sample_like (cbpe_logged s scores)"
  by (simp add: sample_like_def)

lemma sample_estimate:
  assumes "sample_like s"
  shows "cbpe_estimate env s df0 =
     (Inr (accumulate (result s) [row0 ''analysis'']),
      (cbpe_logged s [PFloat 0.9, PFloat 0.2])
        \<lparr>result := Some (accumulate (result s) [row0 ''analysis''])\<rparr>,
      cbpe_calibrated env s df0 [PFloat 0.9, PFloat 0.2])"
proof -
  from assms have f: "metrics s = [roc_auc0]" "confidence_upper_bound s = 1"
    "confidence_lower_bound s = 0" "chunker s = (\<lambda>df. [chunk0\<lparr>data := df\<rparr>])"
    "y_pred_proba s = ''y_pred_proba''" "y_pred s = ''y_pred''"
    by (simp_all add: sample_like_def)
  have n: "cbpe_new_rows (cbpe_logged s [PFloat 0.9, PFloat 0.2]) d = Inr [row0 ''analysis'']" for d
    by (rule sample_new_rows) (simp_all add: f)
  have v: "y_pred_proba s \<in> set (df_columns df0)" "y_pred s \<in> set (df_columns df0)"
    "map_of (cols df0) (y_pred_proba s) = Some [PFloat 0.9, PFloat 0.2]"
    by (simp_all add: f df0_facts)
  from cbpe_estimate_valid[OF df0_facts(1) v, of env] n show ?thesis by simp
qed

lemma sample_fit:
  assumes "sample_like s"
  shows "\<exists>s' d'. cbpe_fit env0 s df0 = (Inr (), s', d') \<and> sample_like s' \<and>
           result s' = Some (set_period_reference (accumulate (result s) [row0 ''analysis'']))"
proof -
  from assms have f: "metrics s = [roc_auc0]" "confidence_upper_bound s = 1"
    "confidence_lower_bound s = 0" "chunker s = (\<lambda>df. [chunk0\<lparr>data := df\<rparr>])"
    "y_pred_proba s = ''y_pred_proba''" "y_pred s = ''y_pred''" "y_true s = ''y_true''"
    by (simp_all add: sample_like_def)
  let ?df1 = "set_column df0 (''uncalibrated_'' @ y_pred_proba s) [PFloat 0.9, PFloat 0.2]"
  let ?s3 = "cbpe_fitted env0 s ?df1 [PInt 1, PInt 0] [PFloat 0.9, PFloat 0.2]"
  have sub: "set [y_true s, y_pred_proba s, y_pred s] \<subseteq> set (df_columns df0)"
    by (simp add: f df0_facts)
  have sc: "map_of (cols df0) (y_pred_proba s) = Some [PFloat 0.9, PFloat 0.2]"
    by (simp add: f df0_facts)
  have lb: "get_column ?df1 (y_true s) = Inr [PInt 1, PInt 0]"
    by (simp add: f get_set_column get_column_def df0_def)
  note nf = cbpe_fit_valid[OF df0_facts(1) sub sc lb, of env0]
  have s3: "sample_like ?s3"
    by (simp add: sample_like_def f cbpe_fitted_def Let_def env0_def)
  have ne: "\<not> df_empty ?df1" using df0_facts(1) by (simp add: df_empty_def)
  have cols1: "y_pred_proba ?s3 \<in> set (df_columns ?df1)" "y_pred ?s3 \<in> set (df_columns ?df1)"
    by (simp_all add: f df0_facts)
  have sc1: "map_of (cols ?df1) (y_pred_proba ?s3) = Some [PFloat 0.9, PFloat 0.2]"
    by (simp add: f update_conv' df0_def)
  from s3[unfolded sample_like_def] have g: "metrics ?s3 = [roc_auc0]"
    "confidence_upper_bound ?s3 = 1" "confidence_lower_bound ?s3 = 0"
    "chunker ?s3 = (\<lambda>df. [chunk0\<lparr>data := df\<rparr>])" by blast+
  have n: "cbpe_new_rows (cbpe_logged ?s3 [PFloat 0.9, PFloat 0.2]) d = Inr [row0 ''analysis'']"
    for d
    by (rule sample_new_rows) (simp_all only: cbpe_logged_fields g)
  from cbpe_estimate_valid[OF ne cols1 sc1, of env0] n
  have e: "cbpe_estimate env0 ?s3 ?df1 =
     (Inr (accumulate (result s) [row0 ''analysis'']),
      (cbpe_logged ?s3 [PFloat 0.9, PFloat 0.2])
        \<lparr>result := Some (accumulate (result s) [row0 ''analysis''])\<rparr>,
      cbpe_calibrated env0 ?s3 ?df1 [PFloat 0.9, PFloat 0.2])" by simp
  let ?s' = "(cbpe_logged ?s3 [PFloat 0.9, PFloat 0.2])
        \<lparr>result := Some (set_period_reference (accumulate (result s) [row0 ''analysis'']))\<rparr>"
  from nf e have "cbpe_fit env0 s df0 =
      (Inr (), ?s', cbpe_calibrated env0 ?s3 ?df1 [PFloat 0.9, PFloat 0.2])" by simp
  moreover have "sample_like ?s'"
    by (intro sample_like_result sample_like_logged s3)
  moreover have "result ?s' =
      Some (set_period_reference (accumulate (result s) [row0 ''analysis'']))" by simp
  ultimately show ?thesis by blast
qed

lemma row0_reference: "set_period_reference [row0 p] = [row0 ''reference'']"
  by (simp add: set_period_reference_def row0_def)

section \<open>Accumulation of rows\<close>

text \<open>
  Claim C5. A classification estimator is built by its constructor and fitted on reference
  data; one estimate call on analysis data follows. The result then is the rows of the
  fit, one for each chunk of the reference data and all of period \<^verbatim>\<open>reference\<close>, followed
  by the rows of the estimate, one for each chunk of the analysis data and all of period
  \<^verbatim>\<open>analysis\<close>. Every further estimate call appends one row of period \<^verbatim>\<open>analysis\<close> for
  each of its chunks, whatever their keys, and keeps the rows before it.
\<close>

theorem accumulation:
  assumes "cbpe_init ms yp ypp yt ch cal nc = Inr s0"
    and "cbpe_fit env s0 reference = (Inr u, s1, reference')"
    and "cbpe_estimate env s1 analysis = (Inr t, s2, analysis')"
  shows "\<exists>ref_rows ana_rows.
           t = ref_rows @ ana_rows \<and> result s2 = Some t \<and>
           length ref_rows = length (ch reference') \<and>
           length ana_rows = length (ch analysis') \<and>
           length t = length (ch reference') + length (ch analysis') \<and>
           (\<forall>r \<in> set ref_rows. period_of r = Some (PStr ''reference'')) \<and>
           (\<forall>r \<in> set ana_rows. period_of r = Some (PStr ''analysis'')) \<and>
           (\<forall>more t' s3 more'. cbpe_estimate env s2 more = (Inr t', s3, more') \<longrightarrow>
              (\<exists>rows. t' = t @ rows \<and> result s3 = Some t' \<and>
                      length rows = length (ch more') \<and>
                      (\<forall>r \<in> set rows. period_of r = Some (PStr ''analysis''))))"
proof -
  from assms(1) have i: "result s0 = None" "chunker s0 = ch"
    by (auto simp: cbpe_init_def split: model_outputs.splits)
  from cbpe_fit_rows[OF assms(2)] i obtain rows1 where
    r1: "result s1 = Some (set_period_reference rows1)"
    and l1: "length rows1 = length (ch reference')"
    by (auto simp: accumulate_def)
  from cbpe_fit_frame(1)[OF assms(2)] i have c1: "chunker s1 = ch" by simp
  from cbpe_estimate_rows[OF assms(3)] r1 c1 obtain rows2 where
    t: "t = set_period_reference rows1 @ rows2" and r2: "result s2 = Some t"
    and l2: "length rows2 = length (ch analysis')"
    and p2: "\<forall>r \<in> set rows2. period_of r = Some (PStr ''analysis'')"
    by (auto simp: accumulate_def)
  from cbpe_estimate_frame(2)[OF assms(3)] c1 have c2: "chunker s2 = ch" by simp
  have further: "\<exists>rows. t' = t @ rows \<and> result s3 = Some t' \<and>
                      length rows = length (ch more') \<and>
                      (\<forall>r \<in> set rows. period_of r = Some (PStr ''analysis''))"
    if "cbpe_estimate env s2 more = (Inr t', s3, more')" for more t' s3 more'
    using cbpe_estimate_rows[OF that] r2 c2 by (auto simp: accumulate_def)
  from t r2 l1 l2 p2 set_period_reference_facts[of rows1] further
  show ?thesis
    by (intro exI[of _ "set_period_reference rows1"] exI[of _ rows2]) auto
qed

text \<open>The sample estimator, fitted on the sample frame and used once on it: one chunk
  and one row for each call.\<close>

theorem accumulation_witness:
  "\<exists>s1 d1 t s2 d2.
     cbpe_fit env0 cbpe0 df0 = (Inr (), s1, d1) \<and>
     cbpe_estimate env0 s1 df0 = (Inr t, s2, d2) \<and>
     length t = 2 \<and> result s2 = Some t \<and>
     period_of (t ! 0) = Some (PStr ''reference'') \<and>
     period_of (t ! 1) = Some (PStr ''analysis'')"
proof -
  from sample_fit[OF cbpe0_sample] obtain s1 d1 where
    f: "cbpe_fit env0 cbpe0 df0 = (Inr (), s1, d1)" and s1: "sample_like s1" by blast
  from sample_estimate[OF s1, of env0] obtain t s2 d2 where
    e: "cbpe_estimate env0 s1 df0 = (Inr t, s2, d2)" by blast
  from e sample_estimate[OF s1, of env0] have d2: "d2 = cbpe_calibrated env0 s1 df0 [PFloat 0.9, PFloat 0.2]"
    by simp
  from f have d1: "length ((\<lambda>df. [chunk0\<lparr>data := df\<rparr>]) d1) = 1" by simp
  from accumulation[OF cbpe0_init f e] obtain ref_rows ana_rows where
    a: "t = ref_rows @ ana_rows" "result s2 = Some t"
      "length ref_rows = 1" "length ana_rows = 1"
      "\<forall>r \<in> set ref_rows. period_of r = Some (PStr ''reference'')"
      "\<forall>r \<in> set ana_rows. period_of r = Some (PStr ''analysis'')"
    by auto
  from a(3,4) obtain r1 r2 where rr: "ref_rows = [r1]" "ana_rows = [r2]"
    by (metis length_0_conv length_Suc_conv One_nat_def)
  with a have "length t = 2" "period_of (t ! 0) = Some (PStr ''reference'')"
    "period_of (t ! 1) = Some (PStr ''analysis'')" by simp_all
  with f e a(2) show ?thesis by blast
qed

section \<open>Calls on the sample regression estimator\<close>

lemma dle_sample_new_rows:
  assumes "metrics s = [mae0]" and "chunker s = (\<lambda>df. [chunk0\<lparr>data := df\<rparr>])"
  shows "dle_new_rows s df = Inr [drow0 ''analysis'']"
  using assms
  by (simp add: dle_new_rows_def dle_estimate_chunk_def chunk_record_def relabel_def Let_def
      create_multilevel_index_def chunk_column_names_def method_column_names_def chunk0_def
      drow0_def mae0_def of_optional_def truthy_def)

lemma dle_sample_prepared:
  assumes "map_of (cols df) ''fuel'' = Some c"
  shows "dle_prepared denv0 s df [''fuel''] =
     (Inr (),
      s\<lparr>categorical_encoders :=
          (case map_of (categorical_encoders s) ''fuel'' of
             None \<Rightarrow> AList.update ''fuel'' () (categorical_encoders s)
           | Some _ \<Rightarrow> categorical_encoders s)\<rparr>,
      set_column
        (set_column df ''fuel''
           (map (\<lambda>v. if v = PNone then PStr ''NML_missing_value'' else v) c))
        ''fuel''
        (map (\<lambda>v. PInt (if v = PStr ''NML_missing_value'' then 0 else 1))
           (map (\<lambda>v. if v = PNone then PStr ''NML_missing_value'' else v) c)))"
  using assms
  by (simp add: dle_prepared_def dle_transform_categorical_def get_column_def assign_columns_def
      denv0_def Let_def update_conv' split: option.splits)

lemma dle_sample_fit_prepared:
  assumes "map_of (cols df) ''fuel'' = Some c"
  shows "dle_fit_prepared denv0 s df [''fuel''] =
     (Inr (),
      s\<lparr>categorical_imputer := (),
        categorical_encoders := AList.update ''fuel'' () (categorical_encoders s)\<rparr>,
      set_column
        (set_column df ''fuel''
           (map (\<lambda>v. if v = PNone then PStr ''NML_missing_value'' else v) c))
        ''fuel''
        (map (\<lambda>v. PInt (if v = PStr ''NML_missing_value'' then 0 else 1))
           (map (\<lambda>v. if v = PNone then PStr ''NML_missing_value'' else v) c)))"
  using assms
  by (simp add: dle_fit_prepared_def dle_fit_categorical_def get_column_def assign_columns_def
      denv0_def Let_def update_conv' split: option.splits)

section \<open>Fit and estimate on the sample regression estimator\<close>

lemma dle_sample_like_upd:
  "dle_sample_like s \<Longrightarrow> dle_sample_like (s\<lparr>result := r\<rparr>)"
  "dle_sample_like s \<Longrightarrow> dle_sample_like (s\<lparr>categorical_encoders := encs\<rparr>)"
  "dle_sample_like s \<Longrightarrow> dle_sample_like (s\<lparr>categorical_imputer := imp\<rparr>)"
  "dle_sample_like s \<Longrightarrow> dle_sample_like (s\<lparr>metrics := map (\<lambda>m. dle_metric_fit denv0 m d) (metrics s)\<rparr>)"
  by (simp_all add: dle_sample_like_def denv0_def)

lemma dle0_sample: "dle_sample_like dle0"
  by (simp add: dle_sample_like_def dle0_def)

lemma df0_fuel: "map_of (cols df0) ''fuel'' = Some [PStr ''gas'', PNone]"
  by (simp add: df0_def)

lemma fuel_column: "map_of (cols df) ''fuel'' = Some c \<Longrightarrow> ''fuel'' \<in> set (df_columns df)"
  by (auto simp: df_columns_def dest: map_of_SomeD intro: rev_image_eqI)

lemma dle_sample_estimate:
  assumes "dle_sample_like s" and "\<not> df_empty df" and "''y_pred'' \<in> set (df_columns df)"
    and "map_of (cols df) ''fuel'' = Some c"
  shows "\<exists>s' d'. dle_estimate denv0 s df =
             (Inr (accumulate (result s) [drow0 ''analysis'']), s', d') \<and>
           dle_sample_like s' \<and>
           result s' = Some (accumulate (result s) [drow0 ''analysis'']) \<and>
           d' = set_column (set_column df ''fuel''
                  (map (\<lambda>v. if v = PNone then PStr ''NML_missing_value'' else v) c))
                  ''fuel'' (recode0 c)"
proof -
  from assms(1) have f: "metrics s = [mae0]" "chunker s = (\<lambda>df. [chunk0\<lparr>data := df\<rparr>])"
    "y_pred s = ''y_pred''" "feature_column_names s = [''fuel'']"
    by (simp_all add: dle_sample_like_def)
  have sub: "set [y_pred s] \<subseteq> set (df_columns df)" using assms(3) by (simp add: f)
  have sp: "split_features_by_type denv0 df (feature_column_names s) = Inr ([], [''fuel''])"
    by (simp add: denv0_def f)
  let ?d1 = "set_column (set_column df ''fuel''
                  (map (\<lambda>v. if v = PNone then PStr ''NML_missing_value'' else v) c))
                  ''fuel'' (recode0 c)"
  obtain s1 where p: "dle_prepared denv0 s df [''fuel''] = (Inr (), s1, ?d1)"
    and s1: "dle_sample_like s1" "result s1 = result s"
    using dle_sample_prepared[OF assms(4), of s] dle_sample_like_upd(2)[OF assms(1)]
    by (simp add: recode0_def)
  from s1(1) have g: "metrics s1 = [mae0]" "chunker s1 = (\<lambda>df. [chunk0\<lparr>data := df\<rparr>])"
    by (simp_all add: dle_sample_like_def)
  have n: "dle_new_rows s1 ?d1 = Inr [drow0 ''analysis'']"
    by (rule dle_sample_new_rows[OF g])
  from dle_estimate_valid[OF assms(2) sub, of denv0] sp p n s1(2)
  have "dle_estimate denv0 s df =
      (Inr (accumulate (result s) [drow0 ''analysis'']),
       s1\<lparr>result := Some (accumulate (result s) [drow0 ''analysis''])\<rparr>, ?d1)" by simp
  moreover have "dle_sample_like (s1\<lparr>result := Some (accumulate (result s) [drow0 ''analysis''])\<rparr>)"
    by (rule dle_sample_like_upd(1)[OF s1(1)])
  ultimately show ?thesis by auto
qed

lemma dle_sample_fit:
  assumes "dle_sample_like s" and "\<not> df_empty df" and "''y_pred'' \<in> set (df_columns df)"
    and "''y_true'' \<in> set (df_columns df)" and "map_of (cols df) ''fuel'' = Some c"
  shows "\<exists>s' d'. dle_fit denv0 s df = (Inr (), s', d') \<and> dle_sample_like s' \<and>
           result s' =
             Some (set_period_reference (accumulate (result s) [drow0 ''analysis''])) \<and>
           map_of (cols d') ''fuel'' = Some (recode0 (recode0 c))"
proof -
  from assms(1) have f: "y_pred s = ''y_pred''" "y_true s = ''y_true''"
    "feature_column_names s = [''fuel'']"
    by (simp_all add: dle_sample_like_def)
  have sub: "set [y_true s, y_pred s] \<subseteq> set (df_columns df)" using assms(3,4) by (simp add: f)
  have sp: "split_features_by_type denv0 df (feature_column_names s) = Inr ([], [''fuel''])"
    by (simp add: denv0_def f)
  let ?d1 = "set_column (set_column df ''fuel''
                  (map (\<lambda>v. if v = PNone then PStr ''NML_missing_value'' else v) c))
                  ''fuel'' (recode0 c)"
  obtain s1 where p: "dle_fit_prepared denv0 s df [''fuel''] = (Inr (), s1, ?d1)"
    and s1: "dle_sample_like s1" "result s1 = result s"
    using dle_sample_fit_prepared[OF assms(5), of s]
      dle_sample_like_upd(2)[OF dle_sample_like_upd(3)[OF assms(1)]]
    by (simp add: recode0_def)
  let ?s2 = "s1\<lparr>metrics := map (\<lambda>metric. dle_metric_fit denv0 metric ?d1) (metrics s1)\<rparr>"
  have s2: "dle_sample_like ?s2" by (rule dle_sample_like_upd(4)[OF s1(1)])
  have r2: "result ?s2 = result s" using s1(2) by simp
  have ne: "\<not> df_empty ?d1" using assms(2) by (simp add: df_empty_def)
  have fc: "''fuel'' \<in> set (df_columns df)" by (rule fuel_column[OF assms(5)])
  have yp: "''y_pred'' \<in> set (df_columns ?d1)" using assms(3) fc by simp
  have fu: "map_of (cols ?d1) ''fuel'' = Some (recode0 c)" by (simp add: update_conv')
  from dle_sample_estimate[OF s2 ne yp fu] r2 obtain s3 d2 where
    e: "dle_estimate denv0 ?s2 ?d1 = (Inr (accumulate (result s) [drow0 ''analysis'']), s3, d2)"
    and s3: "dle_sample_like s3"
    and d2: "map_of (cols d2) ''fuel'' = Some (recode0 (recode0 c))"
    by (auto simp: update_conv')
  let ?s' = "s3\<lparr>result := Some (set_period_reference (accumulate (result s) [drow0 ''analysis'']))\<rparr>"
  from dle_fit_valid[OF assms(2) sub, of denv0] sp p e
  have "dle_fit denv0 s df = (Inr (), ?s', d2)" by simp
  moreover have "dle_sample_like ?s'" by (rule dle_sample_like_upd(1)[OF s3])
  ultimately show ?thesis using d2 by auto
qed

lemma drow0_reference: "set_period_reference [drow0 p] = [drow0 ''reference'']"
  by (simp add: set_period_reference_def drow0_def)

end
